theory Spec2Isabelle
  imports Complex_Main
begin

section \<open>JavaScript values\<close>

text \<open>
  A JavaScript string is a sequence of UTF-16 code units; a code unit is written as its
  number. All Korean text of the sources lies in the Basic Multilingual Plane, one code
  unit per syllable. \<open>ascii\<close> embeds an ASCII literal.
  A number is a double, modelled as the real it stands for; a real that is no double
  stands for the double nearest to it, as a numeric literal does. NaN and the infinities
  are not modelled, so the arithmetic below is that of the source where no result exceeds
  the largest double.
\<close>

type_synonym jsstring = "nat list"

text \<open>
  Every arithmetic operation on doubles gives the exact result rounded to the nearest
  double, a tie going to the double whose last bit is even (IEEE 754 binary64).
  \<open>binade x\<close> is the exponent \<open>e\<close> with \<open>2\<^sup>e \<le> |x| < 2\<^sup>e\<^sup>+\<^sup>1\<close>, and \<open>-1022\<close> for the
  subnormal numbers and 0; the doubles of that binade are the multiples of
  \<open>2\<^sup>e\<^sup>-\<^sup>5\<^sup>2\<close>.
\<close>

definition binade :: "real \<Rightarrow> int" where
  "binade x =
     (case find (\<lambda>e. 2 powi e \<le> \<bar>x\<bar> \<and> \<bar>x\<bar> < 2 powi (e + 1)) [-1022..1023] of
        Some e \<Rightarrow> e
      | None \<Rightarrow> -1022)"

definition round_half_even :: "real \<Rightarrow> int" where
  "round_half_even y =
     (if y - of_int \<lfloor>y\<rfloor> < 1 / 2 then \<lfloor>y\<rfloor>
      else if 1 / 2 < y - of_int \<lfloor>y\<rfloor> then \<lfloor>y\<rfloor> + 1
      else if even \<lfloor>y\<rfloor> then \<lfloor>y\<rfloor> else \<lfloor>y\<rfloor> + 1)"

definition to_double :: "real \<Rightarrow> real" where
  "to_double x =
     2 powi (binade x - 52) * of_int (round_half_even (x / 2 powi (binade x - 52)))"

definition ascii :: "string \<Rightarrow> jsstring" where
  "ascii s = map of_char s"

text \<open>Decimal digits of an index, as a template literal prints a non-negative integer.\<close>

fun dec :: "nat \<Rightarrow> jsstring" where
  "dec n = (if n < 10 then [48 + n] else dec (n div 10) @ [48 + n mod 10])"

declare dec.simps [simp del]

text \<open>\<^verbatim>\<open>className.replace(/_/g, ' ')\<close>: every underscore (0x5F) becomes a space (0x20).\<close>

definition replace_underscores :: "jsstring \<Rightarrow> jsstring" where
  "replace_underscores s = map (\<lambda>c. if c = 0x5F then 0x20 else c) s"

text \<open>
  The lookup tables of the sources are object literals, read with \<^verbatim>\<open>table[key]\<close>. Such a
  read finds the object's own properties first and then the members every object inherits
  from \<^verbatim>\<open>Object.prototype\<close>; only a key found in neither gives \<^verbatim>\<open>undefined\<close>. A value read
  from a table is therefore a string of the table or an inherited member (a built-in
  function, or the prototype object itself for \<^verbatim>\<open>__proto__\<close>).
\<close>

datatype js_value = JSString jsstring | JSInherited jsstring

definition Object_prototype_keys :: "jsstring list" where
  "Object_prototype_keys = map ascii
     [''constructor'', ''__defineGetter__'', ''__defineSetter__'', ''hasOwnProperty'',
      ''__lookupGetter__'', ''__lookupSetter__'', ''isPrototypeOf'',
      ''propertyIsEnumerable'', ''toString'', ''valueOf'', ''__proto__'',
      ''toLocaleString'']"

definition object_get :: "(jsstring \<times> jsstring) list \<Rightarrow> jsstring \<Rightarrow> js_value option" where
  "object_get obj key =
     (case map_of obj key of
        Some v \<Rightarrow> Some (JSString v)
      | None \<Rightarrow> if key \<in> set Object_prototype_keys then Some (JSInherited key) else None)"

text \<open>Truthiness: the empty string is falsy, functions and objects are truthy.\<close>

fun truthy :: "js_value \<Rightarrow> bool" where
  "truthy (JSString s) = (s \<noteq> [])"
| "truthy (JSInherited k) = True"

text \<open>\<^verbatim>\<open>a || b\<close>, where \<open>None\<close> is \<^verbatim>\<open>undefined\<close>.\<close>

definition js_or :: "js_value option \<Rightarrow> js_value \<Rightarrow> js_value" where
  "js_or a b = (case a of Some v \<Rightarrow> if truthy v then v else b | None \<Rightarrow> b)"

text \<open>
  The string a template literal or \<^verbatim>\<open>join\<close> makes of a value. The text of a built-in
  function is the engine's; V8's is given.
\<close>

fun ToString :: "js_value \<Rightarrow> jsstring" where
  "ToString (JSString s) = s"
| "ToString (JSInherited k) =
     (if k = ascii ''__proto__'' then ascii ''[object Object]''
      else ascii ''function '' @ (if k = ascii ''constructor'' then ascii ''Object'' else k)
             @ ascii ''() { [native code] }'')"

fun js_join :: "jsstring \<Rightarrow> js_value list \<Rightarrow> jsstring" where
  "js_join sep [] = []"
| "js_join sep [v] = ToString v"
| "js_join sep (v # w # vs) = ToString v @ sep @ js_join sep (w # vs)"

text \<open>\<^verbatim>\<open>xs.slice(start, final)\<close>: a negative index counts from the end, and both are clamped.\<close>

definition slice_index :: "nat \<Rightarrow> int \<Rightarrow> nat" where
  "slice_index len k = (if k < 0 then nat (int len + k) else min (nat k) len)"

definition js_slice :: "int \<Rightarrow> int \<Rightarrow> 'a list \<Rightarrow> 'a list" where
  "js_slice start final xs =
     (let k = slice_index (length xs) start; e = slice_index (length xs) final
      in take (e - k) (drop k xs))"

text \<open>
  A \<^verbatim>\<open>Map\<close> keeps its entries in insertion order: an association list with distinct keys.
  \<^verbatim>\<open>set\<close> on a present key keeps the key's place.
\<close>

definition map_has :: "('k \<times> 'v) list \<Rightarrow> 'k \<Rightarrow> bool" where
  "map_has m k = (k \<in> set (map fst m))"

definition map_get :: "('k \<times> 'v) list \<Rightarrow> 'k \<Rightarrow> 'v option" where
  "map_get m k = map_of m k"

fun map_set :: "('k \<times> 'v) list \<Rightarrow> 'k \<Rightarrow> 'v \<Rightarrow> ('k \<times> 'v) list" where
  "map_set [] k v = [(k, v)]"
| "map_set ((k', v') # m) k v = (if k' = k then (k, v) # m else (k', v') # map_set m k v)"

text \<open>\<^verbatim>\<open>m.get(k)!.push(x)\<close>: the array stored under \<open>k\<close> grows in place.\<close>

definition map_push :: "('k \<times> 'v list) list \<Rightarrow> 'k \<Rightarrow> 'v \<Rightarrow> ('k \<times> 'v list) list" where
  "map_push m k x = map (\<lambda>(k', vs). if k' = k then (k', vs @ [x]) else (k', vs)) m"

section \<open>Types (types/index.ts)\<close>

record ClassificationResult =
  className :: jsstring
  probability :: real
  confidence :: real

record AltTextResult =
  altText :: jsstring
  classifications :: "ClassificationResult list"
  confidence :: real

text \<open>
  What a \<^verbatim>\<open>throw\<close> carries: a plain \<^verbatim>\<open>Error\<close> with its message, the engine's \<^verbatim>\<open>TypeError\<close>
  for a property read on \<^verbatim>\<open>undefined\<close> (with the property's name), the library's
  \<^verbatim>\<open>ImageAnalysisError\<close> with message and code, or a value that is no \<^verbatim>\<open>Error\<close> at all.
\<close>

datatype js_error =
    Error jsstring
  | TypeError jsstring
  | ImageAnalysisError jsstring jsstring
  | NonError

text \<open>
  \<^verbatim>\<open>error instanceof Error ? error.message : '...'\<close> (the fallback reads "unknown
  error"). The message of the engine's TypeError is V8's.
\<close>

fun caught_message :: "js_error \<Rightarrow> jsstring" where
  "caught_message (Error m) = m"
| "caught_message (TypeError p) =
     ascii ''Cannot read properties of undefined (reading '' @ [0x27] @ p @ [0x27] @ ascii '')''"
| "caught_message (ImageAnalysisError m c) = m"
| "caught_message NonError = [0xC54C, 0x20, 0xC218, 0x20, 0xC5C6, 0xB294, 0x20, 0xC624, 0xB958]"

section \<open>SmartCaptionGenerator (models/smartCaptionGenerator.ts)\<close>

definition OBJECT_CATEGORIES :: "(jsstring \<times> jsstring list) list" where
  "OBJECT_CATEGORIES =
  [(ascii ''animals'',
      map ascii [''golden_retriever'', ''Labrador_retriever'', ''beagle'', ''German_shepherd'',
        ''border_collie'', ''pug'', ''chihuahua'', ''tabby'', ''Persian_cat'', ''Siamese_cat'',
        ''tiger'', ''lion'', ''elephant'', ''giraffe'', ''zebra'', ''panda'']),
   (ascii ''food'',
      map ascii [''banana'', ''apple'', ''orange'', ''strawberry'', ''pizza'', ''hamburger'',
        ''hot_dog'', ''coffee_mug'', ''wine_bottle'', ''sandwich'', ''ice_cream'']),
   (ascii ''vehicles'',
      map ascii [''sports_car'', ''convertible'', ''limousine'', ''motorcycle'', ''bicycle'',
        ''school_bus'', ''truck'', ''airplane'', ''ship'']),
   (ascii ''electronics'',
      map ascii [''laptop'', ''desktop_computer'', ''cellular_telephone'', ''television'',
        ''radio'', ''computer_keyboard'', ''computer_mouse'']),
   (ascii ''furniture'',
      map ascii [''chair'', ''table'', ''bed'', ''sofa'', ''bookshelf'', ''lamp'', ''clock'']),
   (ascii ''clothing'',
      map ascii [''suit'', ''dress'', ''jeans'', ''T-shirt'', ''sneakers'', ''hat'']),
   (ascii ''sports'',
      map ascii [''tennis_ball'', ''basketball'', ''soccer_ball'', ''guitar'', ''piano'',
        ''violin''])]"

definition KOREAN_TRANSLATIONS :: "(jsstring \<times> jsstring) list" where
  "KOREAN_TRANSLATIONS =
  [(ascii ''golden_retriever'', [0xACE8, 0xB4E0, 0x20, 0xB9AC, 0xD2B8, 0xB9AC, 0xBC84]),
   (ascii ''Labrador_retriever'', [0xB798, 0xBE0C, 0xB77C, 0xB3C4, 0x20, 0xB9AC, 0xD2B8, 0xB9AC, 0xBC84]),
   (ascii ''beagle'', [0xBE44, 0xAE00]),
   (ascii ''German_shepherd'', [0xC800, 0xBA3C, 0x20, 0xC170, 0xD37C, 0xB4DC]),
   (ascii ''border_collie'', [0xBCF4, 0xB354, 0x20, 0xCF5C, 0xB9AC]),
   (ascii ''pug'', [0xD37C, 0xADF8]),
   (ascii ''chihuahua'', [0xCE58, 0xC640, 0xC640]),
   (ascii ''tabby'', [0xC5BC, 0xB8E9, 0xBB34, 0xB2AC, 0x20, 0xACE0, 0xC591, 0xC774]),
   (ascii ''Persian_cat'', [0xD398, 0xB974, 0xC2DC, 0xC548, 0x20, 0xACE0, 0xC591, 0xC774]),
   (ascii ''Siamese_cat'', [0xC0F4, 0x20, 0xACE0, 0xC591, 0xC774]),
   (ascii ''tiger'', [0xD638, 0xB791, 0xC774]),
   (ascii ''lion'', [0xC0AC, 0xC790]),
   (ascii ''elephant'', [0xCF54, 0xB07C, 0xB9AC]),
   (ascii ''giraffe'', [0xAE30, 0xB9B0]),
   (ascii ''zebra'', [0xC5BC, 0xB8E9, 0xB9D0]),
   (ascii ''panda'', [0xD310, 0xB2E4]),
   (ascii ''banana'', [0xBC14, 0xB098, 0xB098]),
   (ascii ''apple'', [0xC0AC, 0xACFC]),
   (ascii ''orange'', [0xC624, 0xB80C, 0xC9C0]),
   (ascii ''strawberry'', [0xB538, 0xAE30]),
   (ascii ''pizza'', [0xD53C, 0xC790]),
   (ascii ''hamburger'', [0xD584, 0xBC84, 0xAC70]),
   (ascii ''hot_dog'', [0xD56B, 0xB3C4, 0xADF8]),
   (ascii ''coffee_mug'', [0xCEE4, 0xD53C, 0xC794]),
   (ascii ''wine_bottle'', [0xC640, 0xC778, 0xBCD1]),
   (ascii ''sandwich'', [0xC0CC, 0xB4DC, 0xC704, 0xCE58]),
   (ascii ''ice_cream'', [0xC544, 0xC774, 0xC2A4, 0xD06C, 0xB9BC]),
   (ascii ''laptop'', [0xB178, 0xD2B8, 0xBD81]),
   (ascii ''desktop_computer'', [0xB370, 0xC2A4, 0xD06C, 0xD1B1, 0x20, 0xCEF4, 0xD4E8, 0xD130]),
   (ascii ''cellular_telephone'', [0xC2A4, 0xB9C8, 0xD2B8, 0xD3F0]),
   (ascii ''television'', [0xD154, 0xB808, 0xBE44, 0xC804]),
   (ascii ''radio'', [0xB77C, 0xB514, 0xC624]),
   (ascii ''computer_keyboard'', [0xD0A4, 0xBCF4, 0xB4DC]),
   (ascii ''computer_mouse'', [0xB9C8, 0xC6B0, 0xC2A4]),
   (ascii ''sports_car'', [0xC2A4, 0xD3EC, 0xCE20, 0xCE74]),
   (ascii ''convertible'', [0xCEE8, 0xBC84, 0xD130, 0xBE14]),
   (ascii ''motorcycle'', [0xC624, 0xD1A0, 0xBC14, 0xC774]),
   (ascii ''bicycle'', [0xC790, 0xC804, 0xAC70]),
   (ascii ''school_bus'', [0xC2A4, 0xCFE8, 0xBC84, 0xC2A4]),
   (ascii ''chair'', [0xC758, 0xC790]),
   (ascii ''table'', [0xD14C, 0xC774, 0xBE14]),
   (ascii ''bed'', [0xCE68, 0xB300]),
   (ascii ''sofa'', [0xC18C, 0xD30C]),
   (ascii ''lamp'', [0xB7A8, 0xD504]),
   (ascii ''suit'', [0xC815, 0xC7A5]),
   (ascii ''dress'', [0xB4DC, 0xB808, 0xC2A4]),
   (ascii ''jeans'', [0xCCAD, 0xBC14, 0xC9C0]),
   (ascii ''sneakers'', [0xC6B4, 0xB3D9, 0xD654]),
   (ascii ''hat'', [0xBAA8, 0xC790])]"

text \<open>The table inside \<^verbatim>\<open>getCategoryDescription\<close>.\<close>

definition descriptions :: "(jsstring \<times> jsstring) list" where
  "descriptions =
  [(ascii ''animals'', [0xB3D9, 0xBB3C]),
   (ascii ''food'', [0xC74C, 0xC2DD]),
   (ascii ''vehicles'', [0xCC28, 0xB7C9]),
   (ascii ''electronics'', [0xC804, 0xC790, 0xAE30, 0xAE30]),
   (ascii ''furniture'', [0xAC00, 0xAD6C]),
   (ascii ''clothing'', [0xC758, 0xB958]),
   (ascii ''sports'', [0xC2A4, 0xD3EC, 0xCE20, 0x20, 0xC6A9, 0xD488])]"

text \<open>
  \<^verbatim>\<open>getObjectCategory\<close>: \<^verbatim>\<open>Object.entries\<close> lists the table's own entries in the order
  they are written, and the loop returns at the first list that includes the label.
\<close>

fun getObjectCategory_loop :: "(jsstring \<times> jsstring list) list \<Rightarrow> jsstring \<Rightarrow> jsstring" where
  "getObjectCategory_loop [] name = ascii ''unknown''"
| "getObjectCategory_loop ((category, objects) # entries) name =
     (if name \<in> set objects then category
      else getObjectCategory_loop entries name)"

definition getObjectCategory :: "jsstring \<Rightarrow> jsstring" where
  "getObjectCategory name = getObjectCategory_loop OBJECT_CATEGORIES name"

text \<open>
  \<^verbatim>\<open>getKoreanName\<close>: \<^verbatim>\<open>KOREAN_TRANSLATIONS[className] || className.replace(/_/g, ' ')\<close>.
  The declared result is a string; the value is whatever the table read finds.
\<close>

definition getKoreanName :: "jsstring \<Rightarrow> js_value" where
  "getKoreanName name =
     js_or (object_get KOREAN_TRANSLATIONS name) (JSString (replace_underscores name))"

text \<open>\<^verbatim>\<open>getCategoryDescription\<close>; the fallback reads "object".\<close>

definition getCategoryDescription :: "jsstring \<Rightarrow> js_value" where
  "getCategoryDescription category =
     js_or (object_get descriptions category) (JSString [0xAC1D, 0xCCB4])"

text \<open>
  \<^verbatim>\<open>getDominantCategory\<close>: the loop over the map's entries, with its two variables. The
  mean is \<^verbatim>\<open>results.reduce((sum, r) => sum + r.confidence, 0) / results.length\<close>: each
  confidence read is a double, and each addition and the division round. A division by a
  zero length gives NaN in the source, which no comparison accepts; here it gives 0, which
  the comparison with a non-negative maximum rejects as well.
\<close>

definition avgConfidence :: "ClassificationResult list \<Rightarrow> real" where
  "avgConfidence results =
     to_double
       (foldl (\<lambda>sum r. to_double (sum + to_double (ClassificationResult.confidence r))) 0
          results
        / real (length results))"

fun getDominantCategory_loop ::
  "(jsstring \<times> ClassificationResult list) list \<Rightarrow> real \<Rightarrow> jsstring \<Rightarrow> jsstring" where
  "getDominantCategory_loop [] maxConfidence dominantCategory = dominantCategory"
| "getDominantCategory_loop ((category, results) # entries) maxConfidence dominantCategory =
     (if avgConfidence results > maxConfidence
      then getDominantCategory_loop entries (avgConfidence results) category
      else getDominantCategory_loop entries maxConfidence dominantCategory)"

definition getDominantCategory :: "(jsstring \<times> ClassificationResult list) list \<Rightarrow> jsstring" where
  "getDominantCategory groups = getDominantCategory_loop groups 0 (ascii ''unknown'')"

text \<open>\<^verbatim>\<open>analyzeClassifications\<close>: the first three records, grouped by category.\<close>

record analysis =
  topResult :: "ClassificationResult option"
  categorized :: "(jsstring \<times> ClassificationResult list) list"
  translated :: "(jsstring \<times> js_value) list"
  hasMultipleCategories :: bool
  dominantCategory :: jsstring

definition categorize ::
  "(jsstring \<times> ClassificationResult list) list \<Rightarrow> ClassificationResult \<Rightarrow>
   (jsstring \<times> ClassificationResult list) list" where
  "categorize groups result =
     (let category = getObjectCategory (className result);
          groups' = (if \<not> map_has groups category then map_set groups category [] else groups)
      in map_push groups' category result)"

definition translate :: "(jsstring \<times> js_value) list \<Rightarrow> ClassificationResult \<Rightarrow> (jsstring \<times> js_value) list" where
  "translate names result =
     map_set names (className result) (getKoreanName (className result))"

definition analyzeClassifications :: "ClassificationResult list \<Rightarrow> analysis" where
  "analyzeClassifications cs =
     (let topResults = js_slice 0 3 cs;
          groups = foldl categorize [] topResults;
          names = foldl translate [] topResults
      in \<lparr>topResult = (case topResults of [] \<Rightarrow> None | r # _ \<Rightarrow> Some r),
          categorized = groups,
          translated = names,
          hasMultipleCategories = (length groups > 1),
          dominantCategory = getDominantCategory groups\<rparr>)"

text \<open>
  \<^verbatim>\<open>generateSingleObjectCaption\<close>. The animal sentences read "a picture of a cute X",
  "there is an animal that looks like X", "an animal similar to X is seen".
\<close>

definition generateSingleObjectCaption :: "js_value \<Rightarrow> real \<Rightarrow> jsstring \<Rightarrow> jsstring" where
  "generateSingleObjectCaption object conf category =
     (if category = ascii ''animals'' then
        (if conf > 0.8 then
           [0xADC0, 0xC5EC, 0xC6B4, 0x20] @ ToString object
             @ [0xC758, 0x20, 0xC0AC, 0xC9C4, 0xC785, 0xB2C8, 0xB2E4]
         else if conf > 0.5 then
           ToString object @ [0xB85C, 0x20, 0xBCF4, 0xC774, 0xB294, 0x20, 0xB3D9, 0xBB3C, 0xC774,
             0x20, 0xC788, 0xC2B5, 0xB2C8, 0xB2E4]
         else
           ToString object @ [0xC640, 0x20, 0xBE44, 0xC2B7, 0xD55C, 0x20, 0xB3D9, 0xBB3C, 0xC774,
             0x20, 0xBCF4, 0xC785, 0xB2C8, 0xB2E4])
      else if category = ascii ''food'' then
        (if conf > 0.8 then
           [0xB9DB, 0xC788, 0xC5B4, 0x20, 0xBCF4, 0xC774, 0xB294, 0x20] @ ToString object
             @ [0xC785, 0xB2C8, 0xB2E4]
         else
           ToString object @ [0xB85C, 0x20, 0xBCF4, 0xC774, 0xB294, 0x20, 0xC74C, 0xC2DD, 0xC774,
             0x20, 0xC788, 0xC2B5, 0xB2C8, 0xB2E4])
      else if category = ascii ''electronics'' then
        ToString object @ [0xAC00, 0x20, 0xC788, 0xB294, 0x20, 0xBAA8, 0xC2B5, 0xC785, 0xB2C8, 0xB2E4]
      else if conf > 0.7 then
        [0xC0AC, 0xC9C4, 0xC5D0, 0x20] @ ToString object
          @ [0xAC00, 0x20, 0xBCF4, 0xC785, 0xB2C8, 0xB2E4]
      else if conf > 0.4 then
        ToString object @ [0xB85C, 0x20, 0xBCF4, 0xC774, 0xB294, 0x20, 0xAC1D, 0xCCB4, 0xAC00,
          0x20, 0xC788, 0xC2B5, 0xB2C8, 0xB2E4]
      else
        ToString object @ [0xC640, 0x20, 0xBE44, 0xC2B7, 0xD55C, 0x20, 0xAC83, 0xC774, 0x20,
          0xBCF4, 0xC785, 0xB2C8, 0xB2E4])"

text \<open>\<^verbatim>\<open>generateSameCategoryCaption\<close>.\<close>

definition generateSameCategoryCaption :: "js_value list \<Rightarrow> jsstring \<Rightarrow> jsstring" where
  "generateSameCategoryCaption objects category =
     (let categoryDesc = getCategoryDescription category in
      if length objects = 1 then
        ToString categoryDesc @ [0x20, 0xC0AC, 0xC9C4, 0xC785, 0xB2C8, 0xB2E4, 0x2E, 0x20]
          @ ToString (objects ! 0) @ [0xAC00, 0x20, 0xBCF4, 0xC785, 0xB2C8, 0xB2E4]
      else
        ToString categoryDesc
          @ [0x20, 0xAD00, 0xB828, 0x20, 0xC0AC, 0xC9C4, 0xC785, 0xB2C8, 0xB2E4, 0x2E, 0x20]
          @ js_join [0xC640, 0x20] objects @ [0xAC00, 0x20, 0xBCF4, 0xC785, 0xB2C8, 0xB2E4])"

text \<open>\<^verbatim>\<open>generateMixedCategoryCaption\<close>.\<close>

definition generateMixedCategoryCaption :: "js_value \<Rightarrow> js_value list \<Rightarrow> jsstring" where
  "generateMixedCategoryCaption mainObject otherObjects =
     (if length otherObjects = 0 then
        [0xC8FC, 0xB85C, 0x20] @ ToString mainObject
          @ [0xAC00, 0x20, 0xBCF4, 0xC774, 0xB294, 0x20, 0xC0AC, 0xC9C4, 0xC785, 0xB2C8, 0xB2E4]
      else if length otherObjects = 1 then
        ToString mainObject @ [0xC640, 0x20] @ ToString (otherObjects ! 0)
          @ [0xAC00, 0x20, 0xD568, 0xAED8, 0x20, 0xC788, 0xB294, 0x20, 0xC0AC, 0xC9C4, 0xC785,
             0xB2C8, 0xB2E4]
      else
        ToString mainObject
          @ [0xB97C, 0x20, 0xD3EC, 0xD568, 0xD574, 0x20, 0xC5EC, 0xB7EC, 0x20, 0xAC1D, 0xCCB4,
             0xB4E4, 0xC774, 0x20, 0xC788, 0xB294, 0x20, 0xBCF5, 0xD569, 0xC801, 0xC778, 0x20,
             0xC0AC, 0xC9C4, 0xC785, 0xB2C8, 0xB2E4])"

text \<open>
  The two loops of \<^verbatim>\<open>generateContextualCaption\<close> that collect the translated names of some
  records: \<^verbatim>\<open>if (koreanName) objects.push(koreanName)\<close>.
\<close>

definition koreanNames :: "(jsstring \<times> js_value) list \<Rightarrow> ClassificationResult list \<Rightarrow> js_value list" where
  "koreanNames names results =
     concat (map (\<lambda>result.
        case map_get names (className result) of
          Some koreanName \<Rightarrow> if truthy koreanName then [koreanName] else []
        | None \<Rightarrow> []) results)"

text \<open>
  \<^verbatim>\<open>generateContextualCaption\<close>. A read of \<^verbatim>\<open>.className\<close>, \<^verbatim>\<open>.length\<close> or \<^verbatim>\<open>.slice\<close> on
  \<^verbatim>\<open>undefined\<close> throws; the non-null assertions of the source do not check anything.
  \<open>otherwise\<close> is what follows the first \<^verbatim>\<open>if\<close>: the case of one category, then the
  case of several.
\<close>

definition generateContextualCaption :: "analysis \<Rightarrow> js_error + jsstring" where
  "generateContextualCaption a =
     (case topResult a of
        None \<Rightarrow> Inl (TypeError (ascii ''className''))
      | Some topR \<Rightarrow>
          (let mainObject = js_or (map_get (translated a) (className topR)) (JSString (className topR));
               conf = ClassificationResult.confidence topR;
               otherwise =
                 (if \<not> hasMultipleCategories a then
                    (case map_get (categorized a) (dominantCategory a) of
                       None \<Rightarrow> Inl (TypeError (ascii ''slice''))
                     | Some categoryResults \<Rightarrow>
                         Inr (generateSameCategoryCaption
                                (koreanNames (translated a) (js_slice 0 2 categoryResults))
                                (dominantCategory a)))
                  else
                    Inr (generateMixedCategoryCaption mainObject
                           (concat (map (\<lambda>(category, results).
                              koreanNames (translated a) (js_slice 1 3 results)) (categorized a)))))
           in if length (categorized a) = 1 then
                (case map_get (categorized a) (dominantCategory a) of
                   None \<Rightarrow> Inl (TypeError (ascii ''length''))
                 | Some results \<Rightarrow>
                     if length results = 1
                     then Inr (generateSingleObjectCaption mainObject conf (dominantCategory a))
                     else otherwise)
              else otherwise))"

text \<open>\<^verbatim>\<open>generateSmartCaption\<close>; the fixed sentence reads "an image that cannot be analysed".\<close>

definition generateSmartCaption :: "ClassificationResult list \<Rightarrow> js_error + AltTextResult" where
  "generateSmartCaption cs =
     (if length cs = 0 then
        Inr \<lparr>altText = [0xBD84, 0xC11D, 0xD560, 0x20, 0xC218, 0x20, 0xC5C6, 0xB294, 0x20, 0xC774,
                         0xBBF8, 0xC9C0, 0xC785, 0xB2C8, 0xB2E4],
             classifications = [],
             confidence = 0\<rparr>
      else
        (case generateContextualCaption (analyzeClassifications cs) of
           Inl e \<Rightarrow> Inl e
         | Inr caption \<Rightarrow>
             Inr \<lparr>altText = caption,
                  classifications = cs,
                  confidence = ClassificationResult.confidence (cs ! 0)\<rparr>))"

section \<open>ImageClassifier (models/imageClassifier.ts)\<close>

text \<open>
  The loaded model is an object of the ML runtime. All the class does with it is
  \<^verbatim>\<open>model.predict(tensor)\<close> followed by \<^verbatim>\<open>predictions.data()\<close>: a model is the probability
  vector it gives for a tensor, or what the runtime throws. Tensors are opaque.
\<close>

type_synonym 't LayersModel = "'t \<Rightarrow> js_error + real list"

record 't ImageClassifier =
  model :: "'t LayersModel option"
  isLoading :: bool
  classNames :: "jsstring list"

definition new_ImageClassifier :: "'t ImageClassifier" where
  "new_ImageClassifier = \<lparr>model = None, isLoading = False, classNames = []\<rparr>"

definition DEFAULT_MODEL_URL :: jsstring where
  "DEFAULT_MODEL_URL = ascii
     ''https://tfhub.dev/google/tfjs-model/imagenet/mobilenet_v2_100_224/classification/3/default/1''"

record ModelLoadOptions =
  modelUrl :: "jsstring option"

text \<open>
  What lies outside the library and decides a call: the runtime's \<^verbatim>\<open>tf.loadLayersModel\<close>,
  the \<^verbatim>\<open>fetch\<close> of the label file, the image preprocessing in the browser (it reads the
  target size and the normalisation flag), and, for a caller that finds a load in flight,
  the classifier as it stands after each further 100 ms of waiting.
  The progress callback and the console only observe a call and are left out.
\<close>

datatype fetch_response =
  Response (ok: bool) (status: nat) (statusText: jsstring) (body: "js_error + jsstring")

record ('i, 't) world =
  loadLayersModel :: "jsstring \<Rightarrow> js_error + 't LayersModel"
  fetchLabels :: "js_error + fetch_response"
  processImage :: "'i \<Rightarrow> real option \<Rightarrow> bool option \<Rightarrow> js_error + 't"
  laterClassifier :: "nat \<Rightarrow> 't ImageClassifier"

text \<open>
  An async function ends with the module's state as it leaves it and a value or a
  rejection; \<open>None\<close> is a promise that never settles.
\<close>

type_synonym ('s, 'a) promise = "('s \<times> (js_error + 'a)) option"

text \<open>
  \<^verbatim>\<open>labelsText.trim().split('\n')\<close>: \<^verbatim>\<open>trim\<close> strips white space and line terminators
  from both ends; \<^verbatim>\<open>split\<close> cuts at every line feed, and gives one empty string for the
  empty string.
\<close>

definition is_whitespace :: "nat \<Rightarrow> bool" where
  "is_whitespace c =
     (c \<in> set [0x09, 0x0A, 0x0B, 0x0C, 0x0D, 0x20, 0xA0, 0x1680, 0x2028, 0x2029, 0x202F,
               0x205F, 0x3000, 0xFEFF]
      \<or> (0x2000 \<le> c \<and> c \<le> 0x200A))"

definition js_trim :: "jsstring \<Rightarrow> jsstring" where
  "js_trim s = rev (dropWhile is_whitespace (rev (dropWhile is_whitespace s)))"

fun js_split :: "nat \<Rightarrow> jsstring \<Rightarrow> jsstring list" where
  "js_split sep [] = [[]]"
| "js_split sep (c # cs) =
     (if c = sep then [] # js_split sep cs
      else (case js_split sep cs of [] \<Rightarrow> [[c]] | w # ws \<Rightarrow> (c # w) # ws))"

text \<open>
  \<^verbatim>\<open>loadImageNetLabels\<close>: the \<^verbatim>\<open>try\<close> block, then the function with its \<^verbatim>\<open>catch\<close>, which
  installs the placeholder labels.
\<close>

definition loadImageNetLabels_try :: "js_error + fetch_response \<Rightarrow> js_error + jsstring list" where
  "loadImageNetLabels_try fetched =
     (case fetched of
        Inl e \<Rightarrow> Inl e
      | Inr response \<Rightarrow>
          if \<not> ok response then
            Inl (Error (ascii ''HTTP '' @ dec (status response) @ ascii '': ''
                          @ statusText response))
          else
            (case body response of
               Inl e \<Rightarrow> Inl e
             | Inr labelsText \<Rightarrow> Inr (js_split 0x0A (js_trim labelsText))))"

definition loadImageNetLabels :: "js_error + fetch_response \<Rightarrow> 't ImageClassifier \<Rightarrow> 't ImageClassifier" where
  "loadImageNetLabels fetched self =
     (case loadImageNetLabels_try fetched of
        Inr labels \<Rightarrow> self\<lparr>classNames := labels\<rparr>
      | Inl e \<Rightarrow> self\<lparr>classNames := map (\<lambda>i. ascii ''class_'' @ dec i) [0..<1000]\<rparr>)"

text \<open>
  \<^verbatim>\<open>waitForLoading\<close>: the loop sleeps while the flag is set; each sleep ends in the
  classifier as the load in flight has left it by then.
\<close>

partial_function (option) waitForLoading ::
  "'t ImageClassifier \<Rightarrow> (nat \<Rightarrow> 't ImageClassifier) \<Rightarrow> 't ImageClassifier option" where
  "waitForLoading self later =
     (if isLoading self then waitForLoading (later 0) (\<lambda>n. later (Suc n)) else Some self)"

definition isModelLoaded :: "'t ImageClassifier \<Rightarrow> bool" where
  "isModelLoaded self = (model self \<noteq> None)"

text \<open>\<^verbatim>\<open>loadModel\<close>; the message of its error reads "loading the model failed: ...".\<close>

definition loadModel ::
  "('i, 't) world \<Rightarrow> ModelLoadOptions \<Rightarrow> 't ImageClassifier \<Rightarrow> ('t ImageClassifier, unit) promise" where
  "loadModel w options self =
     (if model self \<noteq> None then Some (self, Inr ())
      else if isLoading self then
        (case waitForLoading self (laterClassifier w) of
           None \<Rightarrow> None
         | Some self' \<Rightarrow> Some (self', Inr ()))
      else
        (let url = (case modelUrl options of None \<Rightarrow> DEFAULT_MODEL_URL | Some u \<Rightarrow> u) in
         case loadLayersModel w url of
           Inl e \<Rightarrow>
             Some (self\<lparr>isLoading := False\<rparr>,
                   Inl (Error ([0xBAA8, 0xB378, 0x20, 0xB85C, 0xB529, 0xC5D0, 0x20, 0xC2E4,
                                0xD328, 0xD588, 0xC2B5, 0xB2C8, 0xB2E4, 0x3A, 0x20]
                               @ caught_message e)))
         | Inr m \<Rightarrow>
             Some ((loadImageNetLabels (fetchLabels w) (self\<lparr>isLoading := True, model := Some m\<rparr>))
                     \<lparr>isLoading := False\<rparr>,
                   Inr ())))"

text \<open>
  \<^verbatim>\<open>classify\<close>. \<^verbatim>\<open>Array.prototype.sort\<close> is stable, as \<open>sort_key\<close> is; the comparator
  \<^verbatim>\<open>b.probability - a.probability\<close> orders by descending probability. The first error
  reads "the model is not loaded, call loadModel() first", the second "classifying the
  image failed: ...".
\<close>

definition toResult :: "jsstring list \<Rightarrow> real \<times> nat \<Rightarrow> ClassificationResult" where
  "toResult names = (\<lambda>(p, index).
     \<lparr>className = (if index < length names \<and> names ! index \<noteq> [] then names ! index
                    else ascii ''Unknown_'' @ dec index),
      probability = p,
      confidence = p\<rparr>)"

definition classify :: "'t ImageClassifier \<Rightarrow> 't \<Rightarrow> int \<Rightarrow> js_error + ClassificationResult list" where
  "classify self imageTensor maxPredictions =
     (case model self of
        None \<Rightarrow>
          Inl (Error ([0xBAA8, 0xB378, 0xC774, 0x20, 0xB85C, 0xB4DC, 0xB418, 0xC9C0, 0x20, 0xC54A,
                       0xC558, 0xC2B5, 0xB2C8, 0xB2E4, 0x2E, 0x20] @ ascii ''loadModel()''
                      @ [0xC744, 0x20, 0xBA3C, 0xC800, 0x20, 0xD638, 0xCD9C, 0xD558, 0xC138,
                         0xC694, 0x2E]))
      | Some m \<Rightarrow>
          (case m imageTensor of
             Inl e \<Rightarrow>
               Inl (Error ([0xC774, 0xBBF8, 0xC9C0, 0x20, 0xBD84, 0xB958, 0xC5D0, 0x20, 0xC2E4,
                            0xD328, 0xD588, 0xC2B5, 0xB2C8, 0xB2E4, 0x3A, 0x20]
                           @ caught_message e))
           | Inr probabilities \<Rightarrow>
               Inr (map (toResult (classNames self))
                      (js_slice 0 maxPredictions
                         (sort_key (\<lambda>(p, index). - p)
                            (zip probabilities [0..<length probabilities]))))))"

section \<open>The public entry points (index.ts)\<close>

record AnalyzeImageOptions =
  targetSize :: "real option"
  normalize :: "bool option"
  maxPredictions :: "int option"
  modelOptions :: "ModelLoadOptions option"

text \<open>
  The module's state is \<^verbatim>\<open>globalClassifier\<close>, \<open>None\<close> for \<^verbatim>\<open>null\<close>. The three entry
  points start with the same statements: make the classifier if there is none, and load
  the model if it is not loaded. A missing \<^verbatim>\<open>modelOptions\<close> is the empty options.
\<close>

definition loadGlobalClassifier ::
  "('i, 't) world \<Rightarrow> ModelLoadOptions option \<Rightarrow> 't ImageClassifier option \<Rightarrow>
   ('t ImageClassifier, unit) promise" where
  "loadGlobalClassifier w options globalClassifier =
     (let c = (case globalClassifier of None \<Rightarrow> new_ImageClassifier | Some c \<Rightarrow> c) in
      if \<not> isModelLoaded c
      then loadModel w (case options of None \<Rightarrow> \<lparr>modelUrl = None\<rparr> | Some opts \<Rightarrow> opts) c
      else Some (c, Inr ()))"

text \<open>\<^verbatim>\<open>options.maxPredictions || 5\<close>.\<close>

definition maxPredictions_or_5 :: "int option \<Rightarrow> int" where
  "maxPredictions_or_5 n = (case n of None \<Rightarrow> 5 | Some k \<Rightarrow> if k = 0 then 5 else k)"

text \<open>
  \<^verbatim>\<open>analyzeImage\<close>: the \<^verbatim>\<open>try\<close> block, then the function with its \<^verbatim>\<open>catch\<close>. The message
  of the wrapping error reads "an error occurred while analysing the image: ...".
\<close>

definition analyzeImage_try ::
  "('i, 't) world \<Rightarrow> 'i \<Rightarrow> AnalyzeImageOptions \<Rightarrow> 't ImageClassifier option \<Rightarrow>
   ('t ImageClassifier option, AltTextResult) promise" where
  "analyzeImage_try w imageInput options globalClassifier =
     (case loadGlobalClassifier w (modelOptions options) globalClassifier of
        None \<Rightarrow> None
      | Some (c, Inl e) \<Rightarrow> Some (Some c, Inl e)
      | Some (c, Inr u) \<Rightarrow>
          (case processImage w imageInput (targetSize options) (normalize options) of
             Inl e \<Rightarrow> Some (Some c, Inl e)
           | Inr tensor \<Rightarrow>
               (case classify c tensor (maxPredictions_or_5 (maxPredictions options)) of
                  Inl e \<Rightarrow> Some (Some c, Inl e)
                | Inr cs \<Rightarrow>
                    (case generateSmartCaption cs of
                       Inl e \<Rightarrow> Some (Some c, Inl e)
                     | Inr result \<Rightarrow> Some (Some c, Inr result)))))"

definition analyzeImage ::
  "('i, 't) world \<Rightarrow> 'i \<Rightarrow> AnalyzeImageOptions \<Rightarrow> 't ImageClassifier option \<Rightarrow>
   ('t ImageClassifier option, AltTextResult) promise" where
  "analyzeImage w imageInput options globalClassifier =
     (case analyzeImage_try w imageInput options globalClassifier of
        None \<Rightarrow> None
      | Some (g, Inr result) \<Rightarrow> Some (g, Inr result)
      | Some (g, Inl e) \<Rightarrow>
          Some (g, Inl (case e of
             ImageAnalysisError m c \<Rightarrow> e
           | _ \<Rightarrow>
               ImageAnalysisError
                 ([0xC774, 0xBBF8, 0xC9C0, 0x20, 0xBD84, 0xC11D, 0x20, 0xC911, 0x20, 0xC624,
                   0xB958, 0xAC00, 0x20, 0xBC1C, 0xC0DD, 0xD588, 0xC2B5, 0xB2C8, 0xB2E4, 0x3A,
                   0x20] @ caught_message e)
                 (ascii ''ANALYSIS_FAILED''))))"

text \<open>
  \<^verbatim>\<open>classifyImage\<close>, likewise; its message reads "an error occurred while classifying
  the image: ...".
\<close>

definition classifyImage_try ::
  "('i, 't) world \<Rightarrow> 'i \<Rightarrow> AnalyzeImageOptions \<Rightarrow> 't ImageClassifier option \<Rightarrow>
   ('t ImageClassifier option, ClassificationResult list) promise" where
  "classifyImage_try w imageInput options globalClassifier =
     (case loadGlobalClassifier w (modelOptions options) globalClassifier of
        None \<Rightarrow> None
      | Some (c, Inl e) \<Rightarrow> Some (Some c, Inl e)
      | Some (c, Inr u) \<Rightarrow>
          (case processImage w imageInput (targetSize options) (normalize options) of
             Inl e \<Rightarrow> Some (Some c, Inl e)
           | Inr tensor \<Rightarrow>
               (case classify c tensor (maxPredictions_or_5 (maxPredictions options)) of
                  Inl e \<Rightarrow> Some (Some c, Inl e)
                | Inr cs \<Rightarrow> Some (Some c, Inr cs))))"

definition classifyImage ::
  "('i, 't) world \<Rightarrow> 'i \<Rightarrow> AnalyzeImageOptions \<Rightarrow> 't ImageClassifier option \<Rightarrow>
   ('t ImageClassifier option, ClassificationResult list) promise" where
  "classifyImage w imageInput options globalClassifier =
     (case classifyImage_try w imageInput options globalClassifier of
        None \<Rightarrow> None
      | Some (g, Inr cs) \<Rightarrow> Some (g, Inr cs)
      | Some (g, Inl e) \<Rightarrow>
          Some (g, Inl (ImageAnalysisError
            ([0xC774, 0xBBF8, 0xC9C0, 0x20, 0xBD84, 0xB958, 0x20, 0xC911, 0x20, 0xC624, 0xB958,
              0xAC00, 0x20, 0xBC1C, 0xC0DD, 0xD588, 0xC2B5, 0xB2C8, 0xB2E4, 0x3A, 0x20]
             @ caught_message e)
            (ascii ''CLASSIFICATION_FAILED''))))"

text \<open>\<^verbatim>\<open>preloadModel\<close> has no \<^verbatim>\<open>try\<close>: what \<^verbatim>\<open>loadModel\<close> throws is what it throws.\<close>

definition preloadModel ::
  "('i, 't) world \<Rightarrow> ModelLoadOptions \<Rightarrow> 't ImageClassifier option \<Rightarrow>
   ('t ImageClassifier option, unit) promise" where
  "preloadModel w options globalClassifier =
     (case loadGlobalClassifier w (Some options) globalClassifier of
        None \<Rightarrow> None
      | Some (c, r) \<Rightarrow> Some (Some c, r))"

section \<open>Notions of the specification\<close>

text \<open>
  The specification speaks of the categories represented among the records, of the
  records that are members of a category, and of the mean probability of some records.
  The categories are listed in the order in which they first appear. The mean is the
  exact one, of the reals the confidences stand for.
\<close>

definition first_appearances :: "'a list \<Rightarrow> 'a list" where
  "first_appearances xs = foldl (\<lambda>seen x. if x \<in> set seen then seen else seen @ [x]) [] xs"

definition represented_categories :: "ClassificationResult list \<Rightarrow> jsstring list" where
  "represented_categories rs = first_appearances (map (\<lambda>r. getObjectCategory (className r)) rs)"

definition category_members :: "ClassificationResult list \<Rightarrow> jsstring \<Rightarrow> ClassificationResult list" where
  "category_members rs c = filter (\<lambda>r. getObjectCategory (className r) = c) rs"

definition mean_probability :: "ClassificationResult list \<Rightarrow> real" where
  "mean_probability rs = sum_list (map ClassificationResult.confidence rs) / real (length rs)"

definition category_mean :: "ClassificationResult list \<Rightarrow> jsstring \<Rightarrow> real" where
  "category_mean rs c = mean_probability (category_members rs c)"

text \<open>
  The fetch of the label file fails when \<^verbatim>\<open>fetch\<close> rejects, when the response's status is
  not ok, or when reading the response's text rejects.
\<close>

definition label_fetch_fails :: "js_error + fetch_response \<Rightarrow> bool" where
  "label_fetch_fails fetched =
     (case fetched of Inl e \<Rightarrow> True | Inr response \<Rightarrow> \<not> ok response \<or> isl (body response))"

section \<open>Properties of the rounding\<close>

lemma round_half_even_zero: "round_half_even 0 = 0"
  by (simp add: round_half_even_def)

lemma to_double_zero: "to_double 0 = 0"
  by (simp add: to_double_def round_half_even_zero)




lemma binade_eq:
  assumes "-1022 \<le> e" "e \<le> 1023" "2 powi e \<le> \<bar>x\<bar>" "\<bar>x\<bar> < 2 powi (e + 1)"
  shows "binade x = e"
proof -
  let ?P = "\<lambda>e. 2 powi e \<le> \<bar>x\<bar> \<and> \<bar>x\<bar> < 2 powi (e + 1)"
  have unique: "e' = e" if "?P e'" for e'
  proof (rule ccontr)
    assume "e' \<noteq> e"
    then consider "e' + 1 \<le> e" | "e + 1 \<le> e'" by linarith
    then show False
    proof cases
      case 1
      then have "(2::real) powi (e' + 1) \<le> 2 powi e" by (intro power_int_increasing) auto
      with that assms(3) show False by linarith
    next
      case 2
      then have "(2::real) powi (e + 1) \<le> 2 powi e'" by (intro power_int_increasing) auto
      with that assms(4) show False by linarith
    qed
  qed
  have "e \<in> set [-1022..1023]" using assms(1,2) by (simp only: set_upto atLeastAtMost_iff)
  with assms(3,4) have "find ?P [-1022..1023] \<noteq> None"
    unfolding find_None_iff by blast
  then obtain e' where e': "find ?P [-1022..1023] = Some e'" by blast
  then have "?P e'" unfolding find_Some_iff by blast
  with unique have "e' = e" by blast
  with e' show ?thesis by (simp add: binade_def)
qed

lemma to_double_eval:
  assumes "-1022 \<le> e" "e \<le> 1023" "2 powi e \<le> \<bar>x\<bar>" "\<bar>x\<bar> < 2 powi (e + 1)"
  shows "to_double x = 2 powi (e - 52) * of_int (round_half_even (x / 2 powi (e - 52)))"
  by (simp add: to_double_def binade_eq [OF assms])




section \<open>Properties of the caption generator\<close>

text \<open>
  C1. For the empty classification list, \<open>generateSmartCaption\<close> raises nothing and returns
  the fixed sentence "an image that cannot be analysed", an empty classification list and
  confidence 0.
\<close>

theorem generateSmartCaption_empty:
  "generateSmartCaption [] =
     Inr \<lparr>altText = [0xBD84, 0xC11D, 0xD560, 0x20, 0xC218, 0x20, 0xC5C6, 0xB294, 0x20, 0xC774,
                      0xBBF8, 0xC9C0, 0xC785, 0xB2C8, 0xB2E4],
          classifications = [], confidence = 0\<rparr>"
  by (simp add: generateSmartCaption_def)

subsection \<open>Categories and translations\<close>

lemma getObjectCategory_loop_find:
  "getObjectCategory_loop T l =
     (case find (\<lambda>(category, objects). l \<in> set objects) T of
        None \<Rightarrow> ascii ''unknown'' | Some (category, objects) \<Rightarrow> category)"
  by (induction T) auto

text \<open>
  C7. The table lists the categories animals, food, vehicles, electronics, furniture,
  clothing, sports in this order, and \<open>getObjectCategory\<close> gives the first category of the
  table whose list contains the label, and "unknown" when no list contains it.
\<close>

theorem getObjectCategory_first_match:
  "map fst OBJECT_CATEGORIES =
     map ascii [''animals'', ''food'', ''vehicles'', ''electronics'', ''furniture'',
                ''clothing'', ''sports'']
   \<and> getObjectCategory l =
     (case find (\<lambda>(category, objects). l \<in> set objects) OBJECT_CATEGORIES of
        None \<Rightarrow> ascii ''unknown''
      | Some (category, objects) \<Rightarrow> category)"
proof
  show "map fst OBJECT_CATEGORIES =
     map ascii [''animals'', ''food'', ''vehicles'', ''electronics'', ''furniture'',
                ''clothing'', ''sports'']"
    by (simp add: OBJECT_CATEGORIES_def)
  show "getObjectCategory l =
     (case find (\<lambda>(category, objects). l \<in> set objects) OBJECT_CATEGORIES of
        None \<Rightarrow> ascii ''unknown''
      | Some (category, objects) \<Rightarrow> category)"
    unfolding getObjectCategory_def by (rule getObjectCategory_loop_find)
qed

text \<open>
  C10. The labels limousine, truck, airplane and tennis_ball each have a category other
  than "unknown" and no entry in the translation table, and \<open>getKoreanName\<close> gives the
  English label with its underscores replaced by spaces.
\<close>

theorem category_member_without_translation:
  "getObjectCategory (ascii ''limousine'') = ascii ''vehicles''
   \<and> getObjectCategory (ascii ''truck'') = ascii ''vehicles''
   \<and> getObjectCategory (ascii ''airplane'') = ascii ''vehicles''
   \<and> getObjectCategory (ascii ''tennis_ball'') = ascii ''sports''
   \<and> ascii ''vehicles'' \<noteq> ascii ''unknown'' \<and> ascii ''sports'' \<noteq> ascii ''unknown''
   \<and> map (map_of KOREAN_TRANSLATIONS)
        (map ascii [''limousine'', ''truck'', ''airplane'', ''tennis_ball''])
      = [None, None, None, None]
   \<and> getKoreanName (ascii ''limousine'') = JSString (ascii ''limousine'')
   \<and> getKoreanName (ascii ''truck'') = JSString (ascii ''truck'')
   \<and> getKoreanName (ascii ''airplane'') = JSString (ascii ''airplane'')
   \<and> getKoreanName (ascii ''tennis_ball'') = JSString (ascii ''tennis ball'')"
  by (simp add: getObjectCategory_def OBJECT_CATEGORIES_def KOREAN_TRANSLATIONS_def ascii_def
      getKoreanName_def object_get_def Object_prototype_keys_def js_or_def
      replace_underscores_def)

text \<open>
  C5, at the label "constructor". The label is not in the translation table, and the table
  read finds the member every object inherits under that name: \<open>getKoreanName\<close> gives that
  member, not the label with its underscores replaced.
\<close>

theorem getKoreanName_inherited_member:
  "map_of KOREAN_TRANSLATIONS (ascii ''constructor'') = None
   \<and> getKoreanName (ascii ''constructor'') = JSInherited (ascii ''constructor'')
   \<and> getKoreanName (ascii ''constructor'')
       \<noteq> JSString (replace_underscores (ascii ''constructor''))"
  by (simp add: KOREAN_TRANSLATIONS_def ascii_def getKoreanName_def object_get_def
      Object_prototype_keys_def js_or_def)

subsection \<open>A single animal\<close>





lemma golden_retriever_category:
  "getObjectCategory (ascii ''golden_retriever'') = ascii ''animals''"
  by (simp add: getObjectCategory_def OBJECT_CATEGORIES_def ascii_def)






subsection \<open>A record of confidence 0\<close>

lemma unknown_not_animals: "ascii ''unknown'' \<noteq> ascii ''animals''"
  by (simp add: ascii_def)

text \<open>
  C6, at the single record golden_retriever with probability and confidence 0. The record
  is grouped under "animals", no mean exceeds 0, the dominant category stays "unknown", and
  the read of the group of "unknown" is a read of \<^verbatim>\<open>.length\<close> on \<^verbatim>\<open>undefined\<close>: the call throws
  instead of returning the list and the confidence.
\<close>

theorem generateSmartCaption_zero_confidence:
  "generateSmartCaption
     [\<lparr>className = ascii ''golden_retriever'', probability = 0, confidence = 0\<rparr>]
   = Inl (TypeError (ascii ''length''))"
  by (simp add: generateSmartCaption_def analyzeClassifications_def js_slice_def
      slice_index_def categorize_def translate_def golden_retriever_category map_has_def
      map_push_def getDominantCategory_def avgConfidence_def to_double_zero
      generateContextualCaption_def map_get_def unknown_not_animals)

subsection \<open>The dominant category\<close>

lemma first_appearances_snoc:
  "first_appearances (xs @ [x]) =
     (if x \<in> set (first_appearances xs) then first_appearances xs
      else first_appearances xs @ [x])"
  by (simp add: first_appearances_def)

lemma set_first_appearances: "set (first_appearances xs) = set xs"
  by (induction xs rule: rev_induct) (auto simp: first_appearances_snoc, simp add: first_appearances_def)

lemma map_set_absent: "k \<notin> fst ` set m \<Longrightarrow> map_set m k v = m @ [(k, v)]"
  by (induction m) auto

lemma category_members_snoc:
  "category_members (xs @ [x]) c =
     category_members xs c @ (if getObjectCategory (className x) = c then [x] else [])"
  by (simp add: category_members_def)

lemma category_members_absent:
  "c \<notin> set (map (\<lambda>r. getObjectCategory (className r)) xs) \<Longrightarrow> category_members xs c = []"
  by (auto simp: category_members_def filter_empty_conv)

lemma categorize_apply:
  "categorize G x =
     map_push (if \<not> map_has G (getObjectCategory (className x))
               then map_set G (getObjectCategory (className x)) [] else G)
       (getObjectCategory (className x)) x"
  by (simp add: categorize_def Let_def)

lemma categorize_groups:
  "foldl categorize [] rs =
     map (\<lambda>c. (c, category_members rs c)) (represented_categories rs)"
proof (induction rs rule: rev_induct)
  case Nil
  show ?case by (simp add: represented_categories_def first_appearances_def)
next
  case (snoc x xs)
  let ?K = "represented_categories xs"
  let ?c = "getObjectCategory (className x)"
  have keys: "set ?K = set (map (\<lambda>r. getObjectCategory (className r)) xs)"
    by (simp add: represented_categories_def set_first_appearances)
  have K': "represented_categories (xs @ [x]) = (if ?c \<in> set ?K then ?K else ?K @ [?c])"
    by (simp add: represented_categories_def first_appearances_snoc)
  have step: "foldl categorize [] (xs @ [x]) =
      categorize (map (\<lambda>c. (c, category_members xs c)) ?K) x"
    by (simp only: foldl_append foldl.simps snoc.IH)
  show ?case
  proof (cases "?c \<in> set ?K")
    case True
    then have "map_has (map (\<lambda>c. (c, category_members xs c)) ?K) ?c"
      by (simp add: map_has_def comp_def)
    then have "categorize (map (\<lambda>c. (c, category_members xs c)) ?K) x =
        map (\<lambda>c. (c, category_members (xs @ [x]) c)) (represented_categories (xs @ [x]))"
      using True
      by (subst categorize_apply) (simp add: K' map_push_def category_members_snoc comp_def)
    with step show ?thesis by (simp only:)
  next
    case False
    then have nh: "\<not> map_has (map (\<lambda>c. (c, category_members xs c)) ?K) ?c"
      by (simp add: map_has_def comp_def)
    from False have abs: "?c \<notin> fst ` set (map (\<lambda>c. (c, category_members xs c)) ?K)"
      by (simp add: image_comp comp_def)
    have empty: "category_members xs ?c = []"
      using False keys by (intro category_members_absent) simp
    have others: "\<forall>c\<in>set ?K. c \<noteq> ?c \<and> ?c \<noteq> c" using False by auto
    have "categorize (map (\<lambda>c. (c, category_members xs c)) ?K) x =
        map (\<lambda>c. (c, category_members (xs @ [x]) c)) (represented_categories (xs @ [x]))"
      using False others
      by (subst categorize_apply)
         (simp add: K' nh map_set_absent [OF abs] map_push_def
          category_members_snoc empty comp_def)
    with step show ?thesis by (simp only:)
  qed
qed

lemma getDominantCategory_loop_none:
  "(\<And>c rs. (c, rs) \<in> set T \<Longrightarrow> avgConfidence rs \<le> m) \<Longrightarrow> getDominantCategory_loop T m d = d"
  by (induction T m d rule: getDominantCategory_loop.induct) (auto simp: not_less [symmetric])

lemma getDominantCategory_loop_some:
  "\<exists>i<length T. m < avgConfidence (snd (T ! i)) \<Longrightarrow>
   \<exists>i<length T. getDominantCategory_loop T m d = fst (T ! i)
      \<and> m < avgConfidence (snd (T ! i))
      \<and> (\<forall>j<length T. avgConfidence (snd (T ! j)) \<le> avgConfidence (snd (T ! i)))
      \<and> (\<forall>j<i. avgConfidence (snd (T ! j)) < avgConfidence (snd (T ! i)))"
proof (induction T m d rule: getDominantCategory_loop.induct)
  case (1 m d)
  then show ?case by simp
next
  case (2 c rs T m d)
  let ?a = "avgConfidence rs"
  show ?case
  proof (cases "m < ?a")
    case True
    show ?thesis
    proof (cases "\<exists>i<length T. ?a < avgConfidence (snd (T ! i))")
      case True
      from "2.IH"(1) [OF \<open>m < ?a\<close> True] obtain i where i: "i < length T"
        "getDominantCategory_loop T ?a c = fst (T ! i)"
        "?a < avgConfidence (snd (T ! i))"
        "\<forall>j<length T. avgConfidence (snd (T ! j)) \<le> avgConfidence (snd (T ! i))"
        "\<forall>j<i. avgConfidence (snd (T ! j)) < avgConfidence (snd (T ! i))"
        by blast
      have "Suc i < length ((c, rs) # T)" using i(1) by simp
      moreover have "getDominantCategory_loop ((c, rs) # T) m d = fst (((c, rs) # T) ! Suc i)"
        using \<open>m < ?a\<close> i(2) by simp
      moreover have "m < avgConfidence (snd (((c, rs) # T) ! Suc i))"
        using \<open>m < ?a\<close> i(3) by simp
      moreover have "\<forall>j<length ((c, rs) # T). avgConfidence (snd (((c, rs) # T) ! j))
          \<le> avgConfidence (snd (((c, rs) # T) ! Suc i))"
        using i(3,4) by (auto simp: nth_Cons split: nat.splits)
      moreover have "\<forall>j<Suc i. avgConfidence (snd (((c, rs) # T) ! j))
          < avgConfidence (snd (((c, rs) # T) ! Suc i))"
        using i(3,5) by (auto simp: nth_Cons split: nat.splits)
      ultimately show ?thesis by blast
    next
      case False
      from False have all: "\<forall>i<length T. avgConfidence (snd (T ! i)) \<le> ?a"
        by (meson not_less)
      have le: "avgConfidence rs' \<le> ?a" if "(c', rs') \<in> set T" for c' rs'
      proof -
        from that obtain i where "i < length T" "T ! i = (c', rs')"
          by (auto simp: in_set_conv_nth)
        with all have "avgConfidence (snd (c', rs')) \<le> ?a" by metis
        then show ?thesis by simp
      qed
      have res: "getDominantCategory_loop ((c, rs) # T) m d = c"
        using \<open>m < ?a\<close> getDominantCategory_loop_none [of T ?a c] le by simp
      have "\<forall>j<length ((c, rs) # T). avgConfidence (snd (((c, rs) # T) ! j)) \<le> ?a"
        using all by (auto simp: nth_Cons split: nat.splits)
      then show ?thesis
        using res \<open>m < ?a\<close> by (intro exI [of _ 0]) simp
    qed
  next
    case False
    from "2.prems" obtain i0 where i0: "i0 < length ((c, rs) # T)"
        "m < avgConfidence (snd (((c, rs) # T) ! i0))" by blast
    with False obtain i1 where "i0 = Suc i1" by (cases i0) auto
    with i0 have ex: "\<exists>i<length T. m < avgConfidence (snd (T ! i))"
      by auto
    from "2.IH"(2) [OF False ex] obtain i where i: "i < length T"
        "getDominantCategory_loop T m d = fst (T ! i)"
        "m < avgConfidence (snd (T ! i))"
        "\<forall>j<length T. avgConfidence (snd (T ! j)) \<le> avgConfidence (snd (T ! i))"
        "\<forall>j<i. avgConfidence (snd (T ! j)) < avgConfidence (snd (T ! i))"
      by blast
    have "Suc i < length ((c, rs) # T)" using i(1) by simp
    moreover have "getDominantCategory_loop ((c, rs) # T) m d = fst (((c, rs) # T) ! Suc i)"
      using False i(2) by simp
    moreover have "m < avgConfidence (snd (((c, rs) # T) ! Suc i))"
      using i(3) by simp
    moreover have "\<forall>j<length ((c, rs) # T). avgConfidence (snd (((c, rs) # T) ! j))
        \<le> avgConfidence (snd (((c, rs) # T) ! Suc i))"
      using False i(3,4) by (auto simp: nth_Cons split: nat.splits)
    moreover have "\<forall>j<Suc i. avgConfidence (snd (((c, rs) # T) ! j))
        < avgConfidence (snd (((c, rs) # T) ! Suc i))"
      using False i(3,5) by (auto simp: nth_Cons split: nat.splits)
    ultimately show ?thesis by blast
  qed
qed

lemma dominantCategory_groups:
  "dominantCategory (analyzeClassifications cs) =
     getDominantCategory_loop
       (map (\<lambda>c. (c, category_members (js_slice 0 3 cs) c))
          (represented_categories (js_slice 0 3 cs))) 0 (ascii ''unknown'')"
  by (simp add: analyzeClassifications_def Let_def getDominantCategory_def categorize_groups)

lemma banana_category: "getObjectCategory (ascii ''banana'') = ascii ''food''"
  by (simp add: getObjectCategory_def OBJECT_CATEGORIES_def ascii_def)

lemma beagle_category: "getObjectCategory (ascii ''beagle'') = ascii ''animals''"
  by (simp add: getObjectCategory_def OBJECT_CATEGORIES_def ascii_def)

lemma category_names_differ:
  "ascii ''animals'' \<noteq> ascii ''food''" "ascii ''food'' \<noteq> ascii ''animals''"
  "ascii ''unknown'' \<noteq> ascii ''food''"
  by (simp_all add: ascii_def)

text \<open>Some doubles, and some sums that are not.\<close>

lemma to_double_1:
  assumes "x = 1"
  shows "to_double x = 1"
  unfolding assms using to_double_eval [of 0 1]
  by (simp add: round_half_even_def)

lemma to_double_half:
  assumes "x = 1 / 2"
  shows "to_double x = 1 / 2"
  unfolding assms using to_double_eval [of "-1" "1 / 2"]
  by (simp add: round_half_even_def power_int_minus)

lemma to_double_quarter:
  assumes "x = 1 / 4"
  shows "to_double x = 1 / 4"
  unfolding assms using to_double_eval [of "-2" "1 / 4"]
  by (simp add: round_half_even_def power_int_minus)

lemma to_double_3_quarters:
  assumes "x = 3 / 4"
  shows "to_double x = 3 / 4"
  unfolding assms using to_double_eval [of "-1" "3 / 4"]
  by (simp add: round_half_even_def power_int_minus)

lemma to_double_3_eighths:
  assumes "x = 3 / 8"
  shows "to_double x = 3 / 8"
  unfolding assms using to_double_eval [of "-2" "3 / 8"]
  by (simp add: round_half_even_def power_int_minus)

lemma to_double_3_ulp:
  assumes "x = 3 / 2 ^ 54"
  shows "to_double x = 3 / 2 ^ 54"
  unfolding assms using to_double_eval [of "-53" "3 / 2 ^ 54"]
  by (simp add: round_half_even_def power_int_minus)

lemma to_double_1_plus:
  assumes "x = 1 + 3 / 2 ^ 54"
  shows "to_double x = 1 + 1 / 2 ^ 52"
  unfolding assms using to_double_eval [of 0 "1 + 3 / 2 ^ 54"]
  by (simp add: round_half_even_def power_int_minus)

lemma to_double_half_plus:
  assumes "x = 1 / 2 + 1 / 2 ^ 53"
  shows "to_double x = 1 / 2 + 1 / 2 ^ 53"
  unfolding assms using to_double_eval [of "-1" "1 / 2 + 1 / 2 ^ 53"]
  by (simp add: round_half_even_def power_int_minus)

text \<open>
  C2, as amended. For the first three records, with confidences between 0 and 1, and their
  categories in the order of first appearance: when the mean of some category, as the
  source computes it in double arithmetic, is positive, the dominant category is the first
  category whose computed mean is the highest.
\<close>

theorem dominantCategory_highest_mean:
  "(\<forall>r\<in>set (js_slice 0 3 cs).
       0 \<le> ClassificationResult.confidence r \<and> ClassificationResult.confidence r \<le> 1)
   \<and> (\<exists>c\<in>set (represented_categories (js_slice 0 3 cs)).
         0 < avgConfidence (category_members (js_slice 0 3 cs) c))
   \<longrightarrow>
   (\<exists>i<length (represented_categories (js_slice 0 3 cs)).
      dominantCategory (analyzeClassifications cs) = represented_categories (js_slice 0 3 cs) ! i
      \<and> (\<forall>c\<in>set (represented_categories (js_slice 0 3 cs)).
            avgConfidence (category_members (js_slice 0 3 cs) c)
              \<le> avgConfidence (category_members (js_slice 0 3 cs)
                    (represented_categories (js_slice 0 3 cs) ! i)))
      \<and> (\<forall>j<i. avgConfidence (category_members (js_slice 0 3 cs)
                      (represented_categories (js_slice 0 3 cs) ! j))
              < avgConfidence (category_members (js_slice 0 3 cs)
                    (represented_categories (js_slice 0 3 cs) ! i))))"
proof (intro impI, elim conjE)
  let ?rs = "js_slice 0 3 cs"
  let ?K = "represented_categories ?rs"
  let ?T = "map (\<lambda>c. (c, category_members ?rs c)) ?K"
  let ?m = "\<lambda>c. avgConfidence (category_members ?rs c)"
  have avg: "\<And>i. i < length ?K \<Longrightarrow> avgConfidence (snd (?T ! i)) = ?m (?K ! i)"
    by simp
  assume "\<exists>c\<in>set ?K. 0 < ?m c"
  then obtain i0 where "i0 < length ?K" "0 < ?m (?K ! i0)"
    by (auto simp: in_set_conv_nth)
  then have "\<exists>i<length ?T. 0 < avgConfidence (snd (?T ! i))"
    using avg by auto
  from getDominantCategory_loop_some [OF this, of "ascii ''unknown''"]
  obtain i where i: "i < length ?T"
    "getDominantCategory_loop ?T 0 (ascii ''unknown'') = fst (?T ! i)"
    "\<forall>j<length ?T. avgConfidence (snd (?T ! j)) \<le> avgConfidence (snd (?T ! i))"
    "\<forall>j<i. avgConfidence (snd (?T ! j)) < avgConfidence (snd (?T ! i))"
    by blast
  have iK: "i < length ?K" using i(1) by simp
  have "dominantCategory (analyzeClassifications cs) = ?K ! i"
    using i(2) iK by (simp add: dominantCategory_groups)
  moreover have "\<forall>c\<in>set ?K. ?m c \<le> ?m (?K ! i)"
  proof
    fix c assume "c \<in> set ?K"
    then obtain j where j: "j < length ?K" "?K ! j = c" by (auto simp: in_set_conv_nth)
    have "j < length ?T" using j(1) by simp
    with i(3) have "avgConfidence (snd (?T ! j)) \<le> avgConfidence (snd (?T ! i))"
      by blast
    then have "?m (?K ! j) \<le> ?m (?K ! i)"
      unfolding avg [OF j(1)] avg [OF iK] .
    then show "?m c \<le> ?m (?K ! i)"
      using j(2) by simp
  qed
  moreover have "\<forall>j<i. ?m (?K ! j) < ?m (?K ! i)"
  proof (intro allI impI)
    fix j assume "j < i"
    then have lt: "avgConfidence (snd (?T ! j)) < avgConfidence (snd (?T ! i))"
      using i(4) by blast
    have jK: "j < length ?K" using \<open>j < i\<close> iK by simp
    from lt show "?m (?K ! j) < ?m (?K ! i)"
      unfolding avg [OF jK] avg [OF iK] .
  qed
  ultimately show "\<exists>i<length ?K.
       dominantCategory (analyzeClassifications cs) = ?K ! i
       \<and> (\<forall>c\<in>set ?K. ?m c \<le> ?m (?K ! i))
       \<and> (\<forall>j<i. ?m (?K ! j) < ?m (?K ! i))"
    using iK by blast
qed

theorem dominantCategory_highest_mean_witness:
  "dominantCategory (analyzeClassifications
      [\<lparr>className = ascii ''golden_retriever'', probability = 1 / 2, confidence = 1 / 2\<rparr>,
       \<lparr>className = ascii ''banana'', probability = 1 / 4, confidence = 1 / 4\<rparr>,
       \<lparr>className = ascii ''beagle'', probability = 1 / 4, confidence = 1 / 4\<rparr>])
     = ascii ''animals''"
proof -
  let ?g = "\<lparr>className = ascii ''golden_retriever'', probability = 1 / 2, confidence = 1 / 2\<rparr>"
  let ?b = "\<lparr>className = ascii ''banana'', probability = 1 / 4, confidence = 1 / 4\<rparr>"
  let ?e = "\<lparr>className = ascii ''beagle'', probability = 1 / 4, confidence = 1 / 4\<rparr>"
  let ?cs = "[?g, ?b, ?e]"
  let ?m = "\<lambda>c. avgConfidence (category_members ?cs c)"
  have top: "js_slice 0 3 ?cs = ?cs" by (simp add: js_slice_def slice_index_def)
  have K: "represented_categories ?cs = [ascii ''animals'', ascii ''food'']"
    by (simp add: represented_categories_def first_appearances_def
        golden_retriever_category banana_category beagle_category category_names_differ)
  have ma: "?m (ascii ''animals'') = 3 / 8"
    by (simp add: category_members_def avgConfidence_def
        golden_retriever_category banana_category beagle_category category_names_differ
        to_double_half to_double_quarter to_double_3_quarters to_double_3_eighths)
  have mf: "?m (ascii ''food'') = 1 / 4"
    by (simp add: category_members_def avgConfidence_def
        golden_retriever_category banana_category beagle_category category_names_differ
        to_double_quarter)
  have range: "\<forall>r\<in>set (js_slice 0 3 ?cs).
       0 \<le> ClassificationResult.confidence r \<and> ClassificationResult.confidence r \<le> 1"
    unfolding top by simp
  have "\<exists>c\<in>set (represented_categories (js_slice 0 3 ?cs)).
      0 < avgConfidence (category_members (js_slice 0 3 ?cs) c)"
    unfolding top K using ma by simp
  with range dominantCategory_highest_mean [of ?cs] obtain i where
    i: "i < length (represented_categories ?cs)"
       "dominantCategory (analyzeClassifications ?cs) = represented_categories ?cs ! i"
       "\<forall>j<i. ?m (represented_categories ?cs ! j) < ?m (represented_categories ?cs ! i)"
    unfolding top by blast
  have "i = 0"
  proof (rule ccontr)
    assume "i \<noteq> 0"
    with i(1) have "i = 1" unfolding K by simp
    with i(3) have "?m (represented_categories ?cs ! 0) < ?m (represented_categories ?cs ! 1)"
      by blast
    then show False
      unfolding K by (simp only: nth_Cons_0 nth_Cons_Suc One_nat_def ma mf)
  qed
  with i(2) show ?thesis
    unfolding K by (simp only: nth_Cons_0)
qed

text \<open>
  C2, as stated, fails where rounding hides the difference of two means. For
  golden_retriever at 1, banana at \<open>1/2 + 2\<^sup>-\<^sup>5\<^sup>3\<close> and beagle at \<open>3 \<sqdot> 2\<^sup>-\<^sup>5\<^sup>4\<close>, all doubles, the
  mean of food is higher than the mean of animals, the two computed means are equal, and
  the dominant category is animals.
\<close>

theorem dominantCategory_rounded_means:
  "represented_categories (js_slice 0 3
      [\<lparr>className = ascii ''golden_retriever'', probability = 1, confidence = 1\<rparr>,
       \<lparr>className = ascii ''banana'', probability = 1 / 2 + 1 / 2 ^ 53,
          confidence = 1 / 2 + 1 / 2 ^ 53\<rparr>,
       \<lparr>className = ascii ''beagle'', probability = 3 / 2 ^ 54, confidence = 3 / 2 ^ 54\<rparr>])
     = [ascii ''animals'', ascii ''food'']
   \<and> category_mean (js_slice 0 3
      [\<lparr>className = ascii ''golden_retriever'', probability = 1, confidence = 1\<rparr>,
       \<lparr>className = ascii ''banana'', probability = 1 / 2 + 1 / 2 ^ 53,
          confidence = 1 / 2 + 1 / 2 ^ 53\<rparr>,
       \<lparr>className = ascii ''beagle'', probability = 3 / 2 ^ 54, confidence = 3 / 2 ^ 54\<rparr>])
        (ascii ''animals'')
     < category_mean (js_slice 0 3
      [\<lparr>className = ascii ''golden_retriever'', probability = 1, confidence = 1\<rparr>,
       \<lparr>className = ascii ''banana'', probability = 1 / 2 + 1 / 2 ^ 53,
          confidence = 1 / 2 + 1 / 2 ^ 53\<rparr>,
       \<lparr>className = ascii ''beagle'', probability = 3 / 2 ^ 54, confidence = 3 / 2 ^ 54\<rparr>])
        (ascii ''food'')
   \<and> dominantCategory (analyzeClassifications
      [\<lparr>className = ascii ''golden_retriever'', probability = 1, confidence = 1\<rparr>,
       \<lparr>className = ascii ''banana'', probability = 1 / 2 + 1 / 2 ^ 53,
          confidence = 1 / 2 + 1 / 2 ^ 53\<rparr>,
       \<lparr>className = ascii ''beagle'', probability = 3 / 2 ^ 54, confidence = 3 / 2 ^ 54\<rparr>])
     = ascii ''animals''"
proof (intro conjI)
  let ?g = "\<lparr>className = ascii ''golden_retriever'', probability = 1, confidence = 1\<rparr>"
  let ?b = "\<lparr>className = ascii ''banana'', probability = 1 / 2 + 1 / 2 ^ 53,
          confidence = 1 / 2 + 1 / 2 ^ 53\<rparr>"
  let ?e = "\<lparr>className = ascii ''beagle'', probability = 3 / 2 ^ 54, confidence = 3 / 2 ^ 54\<rparr>"
  let ?cs = "[?g, ?b, ?e]"
  have top: "js_slice 0 3 ?cs = ?cs" by (simp add: js_slice_def slice_index_def)
  show K: "represented_categories (js_slice 0 3 ?cs) = [ascii ''animals'', ascii ''food'']"
    by (simp add: js_slice_def slice_index_def represented_categories_def first_appearances_def
        golden_retriever_category banana_category beagle_category category_names_differ)
  show "category_mean (js_slice 0 3 ?cs) (ascii ''animals'')
      < category_mean (js_slice 0 3 ?cs) (ascii ''food'')"
    by (simp add: js_slice_def slice_index_def category_mean_def category_members_def
        mean_probability_def
        golden_retriever_category banana_category beagle_category category_names_differ)
  have ma: "avgConfidence (category_members (js_slice 0 3 ?cs) (ascii ''animals''))
      = 1 / 2 + 1 / 2 ^ 53"
    by (simp add: js_slice_def slice_index_def category_members_def avgConfidence_def
        golden_retriever_category banana_category beagle_category category_names_differ
        to_double_1 to_double_3_ulp to_double_1_plus to_double_half_plus)
  have mf: "avgConfidence (category_members (js_slice 0 3 ?cs) (ascii ''food''))
      = 1 / 2 + 1 / 2 ^ 53"
    by (simp add: js_slice_def slice_index_def category_members_def avgConfidence_def
        golden_retriever_category banana_category beagle_category category_names_differ
        to_double_half_plus)
  have "dominantCategory (analyzeClassifications ?cs) =
      getDominantCategory_loop
        [(ascii ''animals'', category_members (js_slice 0 3 ?cs) (ascii ''animals'')),
         (ascii ''food'', category_members (js_slice 0 3 ?cs) (ascii ''food''))]
        0 (ascii ''unknown'')"
    unfolding dominantCategory_groups K by (simp only: list.map)
  also have "\<dots> = ascii ''animals''"
    by (simp only: getDominantCategory_loop.simps ma mf) simp
  finally show "dominantCategory (analyzeClassifications ?cs) = ascii ''animals''" .
qed

section \<open>Properties of the classifier\<close>

subsection \<open>The top results\<close>

lemma js_slice_take: "0 \<le> K \<Longrightarrow> js_slice 0 K xs = take (nat K) xs"
  by (simp add: js_slice_def slice_index_def min_def)

lemma zip_upt_elem:
  assumes "(p, i) \<in> set (zip ps [0..<length ps])"
  shows "i < length ps \<and> p = ps ! i"
  using assms by (auto simp: set_zip)

lemma distinct_snd_sort_zip:
  "distinct (map snd (sort_key f (zip ps [0..<length ps])))"
proof -
  have "distinct (map snd (zip ps [0..<length ps]))" by simp
  then have "distinct (zip ps [0..<length ps]) \<and> inj_on snd (set (zip ps [0..<length ps]))"
    unfolding distinct_map .
  then have "distinct (sort_key f (zip ps [0..<length ps]))
      \<and> inj_on snd (set (sort_key f (zip ps [0..<length ps])))"
    by simp
  then show ?thesis unfolding distinct_map .
qed

lemma sorted_neg_desc: "sorted (map (\<lambda>x. - (x::real)) xs) \<Longrightarrow> sorted_wrt (\<ge>) xs"
  by (induction xs) auto

lemma sorted_key_split:
  assumes "sorted (map f (xs @ ys))" "x \<in> set xs" "y \<in> set ys"
  shows "f x \<le> f y"
  using assms by (auto simp: sorted_append)

text \<open>
  C3, as amended. With the model loaded, a prediction that gives a probability vector and a
  requested count \<open>K \<ge> 0\<close>, \<open>classify\<close> returns the records of a list of distinct indices
  of the vector: as many as the smaller of \<open>K\<close> and the vector's length, in descending
  order of probability, no index left out having a higher probability than one returned.
  Each record carries the probability at its index and the class name at that index, or
  \<^verbatim>\<open>Unknown_<index>\<close> where the list has no name or an empty one there.
\<close>

theorem classify_top_results:
  assumes loaded: "model self = Some m"
    and predicted: "m imageTensor = Inr probabilities"
    and count: "0 \<le> K"
  shows "\<exists>idx.
      classify self imageTensor K =
        Inr (map (\<lambda>i. \<lparr>className =
                           (if i < length (classNames self) \<and> classNames self ! i \<noteq> []
                            then classNames self ! i else ascii ''Unknown_'' @ dec i),
                        probability = probabilities ! i,
                        confidence = probabilities ! i\<rparr>) idx)
      \<and> length idx = min (nat K) (length probabilities)
      \<and> distinct idx
      \<and> set idx \<subseteq> {..<length probabilities}
      \<and> sorted_wrt (\<ge>) (map (\<lambda>i. probabilities ! i) idx)
      \<and> (\<forall>j<length probabilities. j \<notin> set idx \<longrightarrow>
            (\<forall>i\<in>set idx. probabilities ! j \<le> probabilities ! i))"
proof -
  let ?f = "\<lambda>(p::real, index::nat). - p"
  let ?z = "zip probabilities [0..<length probabilities]"
  let ?s = "sort_key ?f ?z"
  let ?t = "take (nat K) ?s"
  let ?idx = "map snd ?t"
  let ?mk = "\<lambda>i. \<lparr>className =
                           (if i < length (classNames self) \<and> classNames self ! i \<noteq> []
                            then classNames self ! i else ascii ''Unknown_'' @ dec i),
                        probability = probabilities ! i,
                        confidence = probabilities ! i\<rparr>"
  have elem: "i < length probabilities \<and> p = probabilities ! i" if "(p, i) \<in> set ?s" for p i
    using that zip_upt_elem [of p i probabilities] by simp
  have elem_t: "i < length probabilities \<and> p = probabilities ! i" if "(p, i) \<in> set ?t" for p i
    using that elem in_set_takeD by fast
  have res: "map (toResult (classNames self)) ?t = map ?mk ?idx"
    using elem_t by (auto simp: toResult_def)
  have c: "classify self imageTensor K = Inr (map ?mk ?idx)"
    using loaded predicted count res
    by (simp add: classify_def js_slice_take)
  have len: "length ?idx = min (nat K) (length probabilities)"
    by (simp add: min.commute)
  have "distinct (take (nat K) (map snd ?s))"
    using distinct_snd_sort_zip [of ?f probabilities] by (rule distinct_take)
  then have dist: "distinct ?idx"
    by (simp only: take_map)
  have sub: "set ?idx \<subseteq> {..<length probabilities}"
    using elem_t by auto
  have probs: "map (\<lambda>i. probabilities ! i) ?idx = map fst ?t"
    using elem_t by auto
  have st: "sorted (map ?f ?s)" by (rule sorted_sort_key)
  have "sorted (take (nat K) (map ?f ?s))"
    using st by (rule sorted_wrt_take)
  then have "sorted (map ?f ?t)"
    by (simp only: take_map)
  then have "sorted (map (\<lambda>x. - x) (map fst ?t))"
    by (simp add: comp_def split_def)
  then have desc: "sorted_wrt (\<ge>) (map (\<lambda>i. probabilities ! i) ?idx)"
    unfolding probs by (rule sorted_neg_desc)
  have rest: "\<forall>j<length probabilities. j \<notin> set ?idx \<longrightarrow>
            (\<forall>i\<in>set ?idx. probabilities ! j \<le> probabilities ! i)"
  proof (intro allI impI ballI)
    fix j i assume j: "j < length probabilities" "j \<notin> set ?idx" and i: "i \<in> set ?idx"
    from j(1) have "(probabilities ! j, j) \<in> set ?z"
      by (auto simp: set_zip)
    then have "(probabilities ! j, j) \<in> set (?t @ drop (nat K) ?s)" by simp
    moreover have "(probabilities ! j, j) \<notin> set ?t"
    proof
      assume "(probabilities ! j, j) \<in> set ?t"
      then have "snd (probabilities ! j, j) \<in> snd ` set ?t" by (rule imageI)
      with j(2) show False by simp
    qed
    ultimately have jd: "(probabilities ! j, j) \<in> set (drop (nat K) ?s)"
      by (simp only: set_append Un_iff) blast
    from i obtain p where "(p, i) \<in> set ?t" by auto
    with elem_t have it: "(probabilities ! i, i) \<in> set ?t" by fastforce
    have "sorted (map ?f (?t @ drop (nat K) ?s))" using st by simp
    from sorted_key_split [OF this it jd]
    show "probabilities ! j \<le> probabilities ! i" by simp
  qed
  from c len dist sub desc rest show ?thesis by blast
qed

theorem classify_top_results_witness:
  "(\<exists>rs. classify \<lparr>model = Some (\<lambda>t. Inr [0.1, 0.7, 0.2]), isLoading = False,
              classNames = [ascii ''tench'', []]\<rparr> () 2 = Inr rs \<and> length rs = 2)
   \<and> classify \<lparr>model = Some (\<lambda>t. Inr [0.1, 0.7, 0.2]), isLoading = False,
              classNames = [ascii ''tench'', []]\<rparr> () 2
     = Inr [\<lparr>className = ascii ''Unknown_1'', probability = 0.7, confidence = 0.7\<rparr>,
            \<lparr>className = ascii ''Unknown_2'', probability = 0.2, confidence = 0.2\<rparr>]"
proof
  let ?self = "\<lparr>model = Some (\<lambda>t::unit. Inr [0.1, 0.7, 0.2 :: real]), isLoading = False,
              classNames = [ascii ''tench'', []]\<rparr>"
  have loaded: "model ?self = Some (\<lambda>t. Inr [0.1, 0.7, 0.2])" by simp
  have predicted: "(\<lambda>t::unit. Inr [0.1, 0.7, 0.2 :: real]) () = Inr [0.1, 0.7, 0.2]" by simp
  have count: "(0::int) \<le> 2" by simp
  from classify_top_results [where imageTensor = "()", OF loaded predicted count]
  show "\<exists>rs. classify ?self () 2 = Inr rs \<and> length rs = 2"
    by (elim exE conjE) simp
next
  show "classify \<lparr>model = Some (\<lambda>t. Inr [0.1, 0.7, 0.2]), isLoading = False,
              classNames = [ascii ''tench'', []]\<rparr> () 2
     = Inr [\<lparr>className = ascii ''Unknown_1'', probability = 0.7, confidence = 0.7\<rparr>,
            \<lparr>className = ascii ''Unknown_2'', probability = 0.2, confidence = 0.2\<rparr>]"
    by (simp add: classify_def js_slice_def slice_index_def toResult_def ascii_def dec.simps)
qed

text \<open>
  C3, as stated, fails where the vector is shorter than the requested count: for a vector
  of two probabilities and a count of 5, \<open>classify\<close> returns two records.
\<close>

theorem classify_fewer_than_requested:
  "classify \<lparr>model = Some (\<lambda>t. Inr [0.9, 0.1]), isLoading = False,
              classNames = [ascii ''tench'', ascii ''goldfish'']\<rparr> () 5
     = Inr [\<lparr>className = ascii ''tench'', probability = 0.9, confidence = 0.9\<rparr>,
            \<lparr>className = ascii ''goldfish'', probability = 0.1, confidence = 0.1\<rparr>]
   \<and> length [\<lparr>className = ascii ''tench'', probability = 0.9, confidence = 0.9\<rparr>,
            \<lparr>className = ascii ''goldfish'', probability = 0.1, confidence = 0.1\<rparr>] \<noteq> 5"
  by (simp add: classify_def js_slice_def slice_index_def toResult_def ascii_def)

subsection \<open>Loading the labels\<close>

lemma loadImageNetLabels_fails:
  "label_fetch_fails fetched \<Longrightarrow>
   loadImageNetLabels fetched self =
     self\<lparr>classNames := map (\<lambda>i. ascii ''class_'' @ dec i) [0..<1000]\<rparr>"
  by (auto simp: label_fetch_fails_def loadImageNetLabels_def loadImageNetLabels_try_def
      split: sum.splits)

lemma placeholder_labels:
  "length (map (\<lambda>i. ascii ''class_'' @ dec i) [0..<1000]) = 1000"
  "map (\<lambda>i. ascii ''class_'' @ dec i) [0..<1000] ! 0 = ascii ''class_0''"
  "map (\<lambda>i. ascii ''class_'' @ dec i) [0..<1000] ! 999 = ascii ''class_999''"
  by (simp_all add: ascii_def dec.simps)

text \<open>
  C8. When a load starts (no model yet, no load in flight), the model itself loads and the
  fetch of the label file fails, \<open>loadModel\<close> completes without an error, and the class
  names are the 1000 placeholders \<^verbatim>\<open>class_0\<close> to \<^verbatim>\<open>class_999\<close>.
\<close>

theorem loadModel_label_fallback:
  assumes "model self = None" and "\<not> isLoading self"
    and "loadLayersModel w (case modelUrl options of None \<Rightarrow> DEFAULT_MODEL_URL | Some u \<Rightarrow> u)
         = Inr m"
    and "label_fetch_fails (fetchLabels w)"
  shows "loadModel w options self =
      Some (self\<lparr>model := Some m, isLoading := False,
                 classNames := map (\<lambda>i. ascii ''class_'' @ dec i) [0..<1000]\<rparr>, Inr ())
    \<and> length (map (\<lambda>i. ascii ''class_'' @ dec i) [0..<1000]) = 1000
    \<and> map (\<lambda>i. ascii ''class_'' @ dec i) [0..<1000] ! 0 = ascii ''class_0''
    \<and> map (\<lambda>i. ascii ''class_'' @ dec i) [0..<1000] ! 999 = ascii ''class_999''"
  using assms
  by (simp add: loadModel_def loadImageNetLabels_fails placeholder_labels)

theorem loadModel_label_fallback_witness:
  "\<exists>names. loadModel
      \<lparr>loadLayersModel = (\<lambda>url. Inr (\<lambda>t::unit. Inr [1])),
       fetchLabels = Inr (Response False 404 (ascii ''Not Found'') (Inr [])),
       processImage = (\<lambda>(i::unit) size norm. Inl NonError),
       laterClassifier = (\<lambda>n. new_ImageClassifier)\<rparr>
      \<lparr>modelUrl = None\<rparr> new_ImageClassifier
    = Some (\<lparr>model = Some (\<lambda>t. Inr [1]), isLoading = False, classNames = names\<rparr>, Inr ())
    \<and> length names = 1000 \<and> names ! 0 = ascii ''class_0'' \<and> names ! 999 = ascii ''class_999''"
proof -
  let ?w = "\<lparr>loadLayersModel = (\<lambda>url. Inr (\<lambda>t::unit. Inr [1])),
       fetchLabels = Inr (Response False 404 (ascii ''Not Found'') (Inr [])),
       processImage = (\<lambda>(i::unit) size norm. Inl NonError),
       laterClassifier = (\<lambda>n. new_ImageClassifier)\<rparr>"
  have 1: "model (new_ImageClassifier :: unit ImageClassifier) = None"
    by (simp add: new_ImageClassifier_def)
  have 2: "\<not> isLoading (new_ImageClassifier :: unit ImageClassifier)"
    by (simp add: new_ImageClassifier_def)
  have 3: "loadLayersModel ?w
      (case modelUrl \<lparr>modelUrl = None\<rparr> of None \<Rightarrow> DEFAULT_MODEL_URL | Some u \<Rightarrow> u)
      = Inr (\<lambda>t. Inr [1])" by simp
  have 4: "label_fetch_fails (fetchLabels ?w)" by (simp add: label_fetch_fails_def)
  from loadModel_label_fallback [OF 1 2 3 4] show ?thesis
    by (simp add: new_ImageClassifier_def)
qed

section \<open>Properties of the entry points\<close>

lemma analyzeImage_error:
  assumes "analyzeImage w imageInput options g = Some (g', Inl e)"
  shows "\<exists>m c. e = ImageAnalysisError m c"
  using assms
  by (auto simp: analyzeImage_def split: option.splits sum.splits js_error.splits prod.splits)

lemma classifyImage_error:
  assumes "classifyImage w imageInput options g = Some (g', Inl e)"
  shows "\<exists>m. e = ImageAnalysisError m (ascii ''CLASSIFICATION_FAILED'')"
  using assms
  by (auto simp: classifyImage_def split: option.splits sum.splits prod.splits)

text \<open>
  C9, at \<open>preloadModel\<close> with no classifier yet and a model load that fails with the error
  "Failed to fetch". \<open>loadModel\<close> throws a plain \<^verbatim>\<open>Error\<close> ("loading the model failed: Failed
  to fetch"), and \<open>preloadModel\<close> lets it through: the failure is not an
  \<^verbatim>\<open>ImageAnalysisError\<close> and has no code.
\<close>

theorem preloadModel_plain_error:
  "preloadModel
      \<lparr>loadLayersModel = (\<lambda>url. Inl (Error (ascii ''Failed to fetch''))),
       fetchLabels = Inl NonError,
       processImage = (\<lambda>(i::unit) size norm. Inl NonError),
       laterClassifier = (\<lambda>n. new_ImageClassifier)\<rparr>
      \<lparr>modelUrl = None\<rparr> None
    = Some (Some (new_ImageClassifier :: unit ImageClassifier),
            Inl (Error ([0xBAA8, 0xB378, 0x20, 0xB85C, 0xB529, 0xC5D0, 0x20, 0xC2E4,
                         0xD328, 0xD588, 0xC2B5, 0xB2C8, 0xB2E4, 0x3A, 0x20]
                        @ ascii ''Failed to fetch'')))"
  by (simp add: preloadModel_def loadGlobalClassifier_def isModelLoaded_def loadModel_def
      new_ImageClassifier_def)

section \<open>Further properties\<close>

subsection \<open>Translations\<close>

lemma KOREAN_TRANSLATIONS_values: "[] \<notin> snd ` set KOREAN_TRANSLATIONS"
  by (simp add: KOREAN_TRANSLATIONS_def)

lemma KOREAN_TRANSLATIONS_nonempty:
  assumes "map_of KOREAN_TRANSLATIONS l = Some k" shows "k \<noteq> []"
proof
  assume "k = []"
  with assms have "(l, []) \<in> set KOREAN_TRANSLATIONS" by (simp add: map_of_SomeD)
  then have "snd (l, []) \<in> snd ` set KOREAN_TRANSLATIONS" by (rule imageI)
  with KOREAN_TRANSLATIONS_values show False by simp
qed

text \<open>
  X1. A label of the translation table is translated to the table's entry; a label that
  is not in the table and is not the name of an inherited member is returned with its
  underscores replaced by spaces.
\<close>

theorem getKoreanName_table_or_fallback:
  "(map_of KOREAN_TRANSLATIONS l = Some k \<longrightarrow> getKoreanName l = JSString k)
   \<and> (map_of KOREAN_TRANSLATIONS l = None \<and> l \<notin> set Object_prototype_keys \<longrightarrow>
        getKoreanName l = JSString (replace_underscores l))"
  using KOREAN_TRANSLATIONS_nonempty [of l k]
  by (auto simp: getKoreanName_def object_get_def js_or_def)

theorem getKoreanName_table_or_fallback_witness:
  "getKoreanName (ascii ''hot_dog'') = JSString [0xD56B, 0xB3C4, 0xADF8]
   \<and> getKoreanName (ascii ''hot_air_balloon'') = JSString (ascii ''hot air balloon'')"
proof
  have "map_of KOREAN_TRANSLATIONS (ascii ''hot_dog'') = Some [0xD56B, 0xB3C4, 0xADF8]"
    by (simp add: KOREAN_TRANSLATIONS_def ascii_def)
  with getKoreanName_table_or_fallback [of "ascii ''hot_dog''" "[0xD56B, 0xB3C4, 0xADF8]"]
  show "getKoreanName (ascii ''hot_dog'') = JSString [0xD56B, 0xB3C4, 0xADF8]" by blast
next
  have "map_of KOREAN_TRANSLATIONS (ascii ''hot_air_balloon'') = None"
    by (simp add: KOREAN_TRANSLATIONS_def ascii_def)
  moreover have "ascii ''hot_air_balloon'' \<notin> set Object_prototype_keys"
    by (simp add: Object_prototype_keys_def ascii_def)
  ultimately have "getKoreanName (ascii ''hot_air_balloon'')
      = JSString (replace_underscores (ascii ''hot_air_balloon''))"
    using getKoreanName_table_or_fallback [of "ascii ''hot_air_balloon''" "[]"] by blast
  then show "getKoreanName (ascii ''hot_air_balloon'') = JSString (ascii ''hot air balloon'')"
    by (simp add: replace_underscores_def ascii_def)
qed

subsection \<open>Captions of records with a positive mean\<close>

lemma set_represented_categories:
  "set (represented_categories rs) = (\<lambda>r. getObjectCategory (className r)) ` set rs"
  by (simp add: represented_categories_def set_first_appearances)

lemma analyzeClassifications_fields:
  "categorized (analyzeClassifications cs) =
     map (\<lambda>c. (c, category_members (js_slice 0 3 cs) c))
       (represented_categories (js_slice 0 3 cs))"
  "hasMultipleCategories (analyzeClassifications cs) =
     (length (represented_categories (js_slice 0 3 cs)) > 1)"
  "topResult (analyzeClassifications cs) =
     (case js_slice 0 3 cs of [] \<Rightarrow> None | r # _ \<Rightarrow> Some r)"
  by (simp_all add: analyzeClassifications_def Let_def categorize_groups)

lemma js_slice_top: "cs \<noteq> [] \<Longrightarrow> \<exists>rest. js_slice 0 3 cs = cs ! 0 # rest"
  by (cases cs) (auto simp: js_slice_def slice_index_def min_def)

lemma generateContextualCaption_returns:
  assumes ne: "cs \<noteq> []"
    and pos: "0 < avgConfidence (js_slice 0 3 cs)"
  shows "\<exists>caption. generateContextualCaption (analyzeClassifications cs) = Inr caption"
proof -
  let ?rs = "js_slice 0 3 cs"
  let ?K = "represented_categories ?rs"
  let ?T = "map (\<lambda>c. (c, category_members ?rs c)) ?K"
  let ?a = "analyzeClassifications cs"
  from js_slice_top [OF ne] obtain rest where rs: "?rs = cs ! 0 # rest" by blast
  have top: "topResult ?a = Some (cs ! 0)"
    by (simp add: analyzeClassifications_fields rs)
  have "getObjectCategory (className (cs ! 0)) \<in> set ?K"
    by (simp add: set_represented_categories rs)
  then have Kne: "?K \<noteq> []" by auto
  show ?thesis
  proof (cases "length ?K = 1")
    case False
    with Kne have "length ?K > 1" by (cases ?K) auto
    then show ?thesis
      using top False
      by (simp add: generateContextualCaption_def analyzeClassifications_fields Let_def)
  next
    case True
    then obtain c0 where K: "?K = [c0]" by (cases ?K) auto
    have "\<forall>r\<in>set ?rs. getObjectCategory (className r) = c0"
      using set_represented_categories [of ?rs] K by auto
    then have members: "category_members ?rs c0 = ?rs"
      by (simp add: category_members_def)
    from pos have "0 < avgConfidence (snd (?T ! 0))"
      by (simp add: K members)
    moreover have "0 < length ?T" by (simp add: K)
    ultimately have "\<exists>i<length ?T. 0 < avgConfidence (snd (?T ! i))" by blast
    from getDominantCategory_loop_some [OF this, of "ascii ''unknown''"]
    obtain i where "i < length ?T"
      "getDominantCategory_loop ?T 0 (ascii ''unknown'') = fst (?T ! i)" by blast
    then have "getDominantCategory_loop ?T 0 (ascii ''unknown'') = c0"
      by (simp add: K)
    then have dom: "dominantCategory ?a = c0"
      by (simp add: dominantCategory_groups)
    have cat: "categorized ?a = [(c0, ?rs)]"
      by (simp add: analyzeClassifications_fields K members)
    have multi: "\<not> hasMultipleCategories ?a"
      by (simp add: analyzeClassifications_fields K)
    show ?thesis
      using top
      by (simp add: generateContextualCaption_def dom cat multi map_get_def Let_def)
  qed
qed

text \<open>
  X2. For a non-empty list whose first three records have confidences between 0 and 1 and
  a positive mean, as the source computes it, \<open>generateSmartCaption\<close> does not throw: it
  returns a caption with the list as given and the first record's confidence.
\<close>

theorem generateSmartCaption_returns:
  assumes "cs \<noteq> []"
    and "\<forall>r\<in>set (js_slice 0 3 cs).
           0 \<le> ClassificationResult.confidence r \<and> ClassificationResult.confidence r \<le> 1"
    and "0 < avgConfidence (js_slice 0 3 cs)"
  shows "\<exists>caption. generateSmartCaption cs =
     Inr \<lparr>altText = caption, classifications = cs,
          confidence = ClassificationResult.confidence (cs ! 0)\<rparr>"
proof -
  from generateContextualCaption_returns [OF assms(1,3)] obtain caption
    where "generateContextualCaption (analyzeClassifications cs) = Inr caption" by blast
  with assms(1) show ?thesis by (simp add: generateSmartCaption_def)
qed

theorem generateSmartCaption_returns_witness:
  "\<exists>caption. generateSmartCaption
      [\<lparr>className = ascii ''golden_retriever'', probability = 1 / 2, confidence = 1 / 2\<rparr>,
       \<lparr>className = ascii ''beagle'', probability = 0, confidence = 0\<rparr>]
    = Inr \<lparr>altText = caption,
           classifications =
             [\<lparr>className = ascii ''golden_retriever'', probability = 1 / 2, confidence = 1 / 2\<rparr>,
              \<lparr>className = ascii ''beagle'', probability = 0, confidence = 0\<rparr>],
           confidence = 1 / 2\<rparr>"
proof -
  let ?cs = "[\<lparr>className = ascii ''golden_retriever'', probability = 1 / 2, confidence = 1 / 2\<rparr>,
       \<lparr>className = ascii ''beagle'', probability = 0, confidence = 0\<rparr>]"
  have 1: "?cs \<noteq> []" by simp
  have 2: "\<forall>r\<in>set (js_slice 0 3 ?cs).
      0 \<le> ClassificationResult.confidence r \<and> ClassificationResult.confidence r \<le> 1"
    by (simp add: js_slice_def slice_index_def)
  have "avgConfidence (js_slice 0 3 ?cs) = 1 / 4"
    by (simp add: js_slice_def slice_index_def avgConfidence_def to_double_zero
        to_double_half to_double_quarter)
  then have 3: "0 < avgConfidence (js_slice 0 3 ?cs)" by simp
  from generateSmartCaption_returns [OF 1 2 3] show ?thesis by simp
qed

subsection \<open>Errors of analyzeImage and classifyImage\<close>

text \<open>
  X3. A failure of \<open>analyzeImage\<close> is an \<^verbatim>\<open>ImageAnalysisError\<close>, and a failure of
  \<open>classifyImage\<close> is one with the code \<^verbatim>\<open>CLASSIFICATION_FAILED\<close>.
\<close>

theorem entry_point_errors_tagged:
  "(analyzeImage w imageInput options g = Some (g', Inl e) \<longrightarrow>
      (\<exists>m c. e = ImageAnalysisError m c))
   \<and> (classifyImage w imageInput options g = Some (g', Inl e) \<longrightarrow>
      (\<exists>m. e = ImageAnalysisError m (ascii ''CLASSIFICATION_FAILED'')))"
  using analyzeImage_error [of w imageInput options g g' e]
    classifyImage_error [of w imageInput options g g' e]
  by blast

theorem entry_point_errors_tagged_witness:
  "analyzeImage
      \<lparr>loadLayersModel = (\<lambda>url. Inl (Error (ascii ''Failed to fetch''))),
       fetchLabels = Inl NonError,
       processImage = (\<lambda>(i::unit) size norm. Inl NonError),
       laterClassifier = (\<lambda>n. new_ImageClassifier)\<rparr> ()
      \<lparr>targetSize = None, normalize = None, maxPredictions = None, modelOptions = None\<rparr> None
    = Some (Some (new_ImageClassifier :: unit ImageClassifier),
            Inl (ImageAnalysisError
              ([0xC774, 0xBBF8, 0xC9C0, 0x20, 0xBD84, 0xC11D, 0x20, 0xC911, 0x20, 0xC624,
                0xB958, 0xAC00, 0x20, 0xBC1C, 0xC0DD, 0xD588, 0xC2B5, 0xB2C8, 0xB2E4, 0x3A, 0x20]
               @ [0xBAA8, 0xB378, 0x20, 0xB85C, 0xB529, 0xC5D0, 0x20, 0xC2E4,
                  0xD328, 0xD588, 0xC2B5, 0xB2C8, 0xB2E4, 0x3A, 0x20]
               @ ascii ''Failed to fetch'')
              (ascii ''ANALYSIS_FAILED'')))"
  using entry_point_errors_tagged
    [of "\<lparr>loadLayersModel = (\<lambda>url. Inl (Error (ascii ''Failed to fetch''))),
       fetchLabels = Inl NonError,
       processImage = (\<lambda>(i::unit) size norm. Inl NonError),
       laterClassifier = (\<lambda>n. new_ImageClassifier :: unit ImageClassifier)\<rparr>" "()"
      "\<lparr>targetSize = None, normalize = None, maxPredictions = None, modelOptions = None\<rparr>"
      None]
  by (simp add: analyzeImage_def analyzeImage_try_def loadGlobalClassifier_def
      isModelLoaded_def loadModel_def new_ImageClassifier_def)

end
